theory Spec2Isabelle
  imports Main "HOL-Library.Sublist"
begin

section \<open>Decoded JSON values\<close>

text \<open>
  What \<^verbatim>\<open>response.json()\<close> hands to the program: Python's \<^verbatim>\<open>None\<close>, \<^verbatim>\<open>bool\<close>,
  \<^verbatim>\<open>int\<close>, \<^verbatim>\<open>float\<close>, \<^verbatim>\<open>str\<close>, \<^verbatim>\<open>list\<close> and \<^verbatim>\<open>dict\<close>.
  A \<^verbatim>\<open>dict\<close> keeps its insertion order, so it is an association list; the decoder never
  yields the same key twice, and no theorem below needs that. The program never computes
  with a \<^verbatim>\<open>float\<close>: one is carried as the text its \<^verbatim>\<open>repr\<close> prints. A \<^verbatim>\<open>str\<close> is a
  \<open>string\<close> whose characters stand for the code points below 256. The tree has no
  sharing (it is decoded from text), so in-place mutation of a node is the replacement of
  that node in the tree.
\<close>

datatype json =
    JNull
  | JBool bool
  | JInt int
  | JFloat string
  | JStr string
  | JList "json list"
  | JDict "(string \<times> json) list"

text \<open>\<^verbatim>\<open>key in d\<close> for a dict.\<close>

definition dict_has :: "(string \<times> json) list \<Rightarrow> string \<Rightarrow> bool" where
  "dict_has kvs k = (map_of kvs k \<noteq> None)"

text \<open>
  \<^verbatim>\<open>d[key] = value\<close>: an existing key keeps its position and takes the new value, a new
  key goes to the end.
\<close>

fun dict_set :: "(string \<times> json) list \<Rightarrow> string \<Rightarrow> json \<Rightarrow> (string \<times> json) list" where
  "dict_set [] k v = [(k, v)]"
| "dict_set ((k', v') # kvs) k v =
     (if k' = k then (k, v) # kvs else (k', v') # dict_set kvs k v)"

section \<open>What Python does with a decoded value\<close>

text \<open>
  The name Python prints for the type of a value, as it stands in the messages of
  \<^verbatim>\<open>TypeError\<close> and \<^verbatim>\<open>AttributeError\<close>.
\<close>

fun type_name :: "json \<Rightarrow> string" where
  "type_name JNull = ''NoneType''"
| "type_name (JBool b) = ''bool''"
| "type_name (JInt i) = ''int''"
| "type_name (JFloat r) = ''float''"
| "type_name (JStr s) = ''str''"
| "type_name (JList xs) = ''list''"
| "type_name (JDict kvs) = ''dict''"

text \<open>A text between single quotes, as an f-string or a message writes it.\<close>

definition quoted :: "string \<Rightarrow> string" where
  "quoted s = [CHR 0x27] @ s @ [CHR 0x27]"

text \<open>
  An operation that raises is a value \<open>Inl msg\<close>, where \<open>msg\<close> is \<^verbatim>\<open>str(e)\<close> of the
  exception; every exception at stake is caught by \<^verbatim>\<open>except Exception as e\<close>, which reads
  nothing but \<^verbatim>\<open>str(e)\<close>.

  \<^verbatim>\<open>data[:n]\<close>: a list and a str are cut to their first \<open>n\<close> items; a dict raises
  \<^verbatim>\<open>TypeError\<close> (a slice is no key; from Python 3.12 on the exception is a \<^verbatim>\<open>KeyError\<close>
  with another message); any other value is not subscriptable.
\<close>

fun py_slice :: "json \<Rightarrow> nat \<Rightarrow> string + json" where
  "py_slice (JList xs) n = Inr (JList (take n xs))"
| "py_slice (JStr s) n = Inr (JStr (take n s))"
| "py_slice (JDict kvs) n = Inl (''unhashable type: '' @ quoted ''slice'')"
| "py_slice j n = Inl (quoted (type_name j) @ '' object is not subscriptable'')"

text \<open>\<^verbatim>\<open>obj.get(key, default)\<close>: only a dict has the method.\<close>

fun py_get :: "json \<Rightarrow> string \<Rightarrow> json \<Rightarrow> string + json" where
  "py_get (JDict kvs) k d = Inr (case map_of kvs k of Some v \<Rightarrow> v | None \<Rightarrow> d)"
| "py_get j k d = Inl (quoted (type_name j) @ '' object has no attribute '' @ quoted ''get'')"

text \<open>
  The items \<^verbatim>\<open>for x in obj\<close> runs through: the items of a list, the keys of a dict, the
  characters of a str; any other value is not iterable.
\<close>

fun py_iter :: "json \<Rightarrow> string + json list" where
  "py_iter (JList xs) = Inr xs"
| "py_iter (JDict kvs) = Inr (map (\<lambda>(k, v). JStr k) kvs)"
| "py_iter (JStr s) = Inr (map (\<lambda>c. JStr [c]) s)"
| "py_iter j = Inl (quoted (type_name j) @ '' object is not iterable'')"

text \<open>
  A \<^verbatim>\<open>for\<close> loop that appends one result per item, left at the first item that raises.
\<close>

fun for_each :: "('a \<Rightarrow> string + 'b) \<Rightarrow> 'a list \<Rightarrow> string + 'b list" where
  "for_each f [] = Inr []"
| "for_each f (x # xs) =
     (case f x of
        Inl err \<Rightarrow> Inl err
      | Inr y \<Rightarrow> (case for_each f xs of Inl err \<Rightarrow> Inl err | Inr ys \<Rightarrow> Inr (y # ys)))"

text \<open>\<^verbatim>\<open>sep.join(items)\<close>.\<close>

fun join :: "string \<Rightarrow> string list \<Rightarrow> string" where
  "join sep [] = []"
| "join sep [x] = x"
| "join sep (x # y # ys) = x @ sep @ join sep (y # ys)"

text \<open>
  The character of a digit below 16 (lower case, as \<^verbatim>\<open>str\<close> and the \<^verbatim>\<open>04x\<close> format print
  it), and \<^verbatim>\<open>str(n)\<close> of an integer, in decimal.
\<close>

definition digit_char :: "nat \<Rightarrow> char" where
  "digit_char n = ''0123456789abcdef'' ! n"

fun str_nat :: "nat \<Rightarrow> string" where
  "str_nat n =
     (if n < 10 then [digit_char n] else str_nat (n div 10) @ [digit_char (n mod 10)])"

declare str_nat.simps [simp del]

definition str_int :: "int \<Rightarrow> string" where
  "str_int i = (if i < 0 then ''-'' @ str_nat (nat (- i)) else str_nat (nat i))"

section \<open>Serialization: \<^verbatim>\<open>json.dumps\<close>\<close>

text \<open>
  The standard library's serializer, for the three ways the program calls it. A character
  of a string is written as it is unless it is a backslash, a double quote or a control
  character, or (with \<^verbatim>\<open>ensure_ascii\<close>, the default) lies outside the printable ASCII
  range; those are written as their two-character escape or as \<^verbatim>\<open>\u00XX\<close>.
\<close>

definition escape_char :: "bool \<Rightarrow> char \<Rightarrow> string" where
  "escape_char ensure_ascii c =
     (if c = CHR 0x5C then [CHR 0x5C, CHR 0x5C]
      else if c = CHR 0x22 then [CHR 0x5C, CHR 0x22]
      else if c = CHR 0x08 then [CHR 0x5C, CHR ''b'']
      else if c = CHR 0x0C then [CHR 0x5C, CHR ''f'']
      else if c = CHR 0x0A then [CHR 0x5C, CHR ''n'']
      else if c = CHR 0x0D then [CHR 0x5C, CHR ''r'']
      else if c = CHR 0x09 then [CHR 0x5C, CHR ''t'']
      else if (of_char c :: nat) < 0x20 \<or> (ensure_ascii \<and> 0x7E < (of_char c :: nat))
      then [CHR 0x5C, CHR ''u'', CHR ''0'', CHR ''0'',
            digit_char (of_char c div 16), digit_char (of_char c mod 16)]
      else [c])"

definition encode_str :: "bool \<Rightarrow> string \<Rightarrow> string" where
  "encode_str ensure_ascii s = [CHR 0x22] @ concat (map (escape_char ensure_ascii) s) @ [CHR 0x22]"

text \<open>
  \<^verbatim>\<open>json.dumps(obj, ensure_ascii=..., separators=(item_sep, key_sep))\<close>.
\<close>

fun dumps :: "bool \<Rightarrow> string \<Rightarrow> string \<Rightarrow> json \<Rightarrow> string" where
  "dumps ea item_sep key_sep JNull = ''null''"
| "dumps ea item_sep key_sep (JBool b) = (if b then ''true'' else ''false'')"
| "dumps ea item_sep key_sep (JInt i) = str_int i"
| "dumps ea item_sep key_sep (JFloat r) = r"
| "dumps ea item_sep key_sep (JStr s) = encode_str ea s"
| "dumps ea item_sep key_sep (JList xs) =
     ''['' @ join item_sep (map (dumps ea item_sep key_sep) xs) @ '']''"
| "dumps ea item_sep key_sep (JDict kvs) =
     ''{'' @ join item_sep
              (map (\<lambda>(k, v). encode_str ea k @ key_sep @ dumps ea item_sep key_sep v) kvs) @ ''}''"

text \<open>\<^verbatim>\<open>json.dumps(data)\<close>: the defaults.\<close>

definition json_dumps :: "json \<Rightarrow> string" where
  "json_dumps data = dumps True '', '' '': '' data"

text \<open>\<^verbatim>\<open>json.dumps(data, ensure_ascii=False)\<close> (line 51).\<close>

definition json_dumps_unicode :: "json \<Rightarrow> string" where
  "json_dumps_unicode data = dumps False '', '' '': '' data"

text \<open>\<^verbatim>\<open>json.dumps(data, separators=(',', ':'))\<close> (lines 1061, 1124, 1190).\<close>

definition json_dumps_compact :: "json \<Rightarrow> string" where
  "json_dumps_compact data = dumps True '','' '':'' data"

section \<open>The shapers\<close>

text \<open>The number of nodes of a tree: the measure the recursive walks go down on.\<close>

fun weight :: "json \<Rightarrow> nat" where
  "weight (JList xs) = Suc (sum_list (map weight xs))"
| "weight (JDict kvs) = Suc (sum_list (map (\<lambda>(k, v). weight v) kvs))"
| "weight _ = Suc 0"

lemma weight_pos: "0 < weight j"
  by (cases j) auto

lemma weight_item: "x \<in> set xs \<Longrightarrow> weight x < weight (JList xs)"
  by (induction xs) auto

lemma weight_value: "(k, v) \<in> set kvs \<Longrightarrow> weight v < weight (JDict kvs)"
  by (induction kvs) auto

lemma weight_map_of: "map_of kvs k = Some v \<Longrightarrow> weight v < weight (JDict kvs)"
  by (rule weight_value) (rule map_of_SomeD)

lemma weight_leaf_le: "weight (JList []) \<le> weight j" "weight (JDict []) \<le> weight j"
  using weight_pos [of j] by simp_all

lemma weight_singleton:
  "map_of links k = Some s \<Longrightarrow> weight (JDict [(k', s)]) \<le> weight (JDict links)"
  using weight_map_of [of links k s] by simp

declare weight.simps [simp del]

lemma dict_set_value:
  "(a, b) \<in> set (dict_set kvs k v) \<Longrightarrow> (a, b) \<in> set kvs \<or> b = v"
  by (induction kvs) (auto split: if_splits)

lemma weight_dict_set:
  assumes "(k, old) \<in> set kvs" and "weight v \<le> weight old"
    and "(a, b) \<in> set (dict_set kvs k v)"
  shows "weight b < weight (JDict kvs)"
proof -
  from assms(3) have "(a, b) \<in> set kvs \<or> b = v"
    by (rule dict_set_value)
  then show ?thesis
  proof
    assume "(a, b) \<in> set kvs"
    then show ?thesis by (rule weight_value)
  next
    assume "b = v"
    with assms(2) have "weight b \<le> weight old" by simp
    also from assms(1) have "weight old < weight (JDict kvs)" by (rule weight_value)
    finally show ?thesis .
  qed
qed

subsection \<open>Subtree-clear: \<^verbatim>\<open>remove_all_analysis_variables\<close> (main.py, lines 688-697)\<close>

text \<open>
  Lines 691-692, the mutation of the dict at hand:
  \<^verbatim>\<open>if 'analysisVariables' in obj: obj['analysisVariables'] = []\<close>.
\<close>

definition clear_analysis_variables :: "(string \<times> json) list \<Rightarrow> (string \<times> json) list" where
  "clear_analysis_variables kvs =
     (if dict_has kvs ''analysisVariables''
      then dict_set kvs ''analysisVariables'' (JList [])
      else kvs)"

lemma weight_clear_analysis_variables:
  assumes "(a, b) \<in> set (clear_analysis_variables kvs)"
  shows "weight b < weight (JDict kvs)"
proof (cases "dict_has kvs ''analysisVariables''")
  case False
  with assms show ?thesis
    by (simp add: clear_analysis_variables_def weight_value)
next
  case True
  then obtain old where old: "(''analysisVariables'', old) \<in> set kvs"
    by (auto simp: dict_has_def dest: map_of_SomeD)
  have "weight (JList []) \<le> weight old"
    by (rule weight_leaf_le)
  with old show ?thesis
    using assms True by (auto simp: clear_analysis_variables_def intro: weight_dict_set)
qed

text \<open>
  The walk. The function mutates its argument and returns nothing; the model returns the
  mutated tree. A dict is first cleared (lines 691-692), then every value of the dict as
  it then stands is walked (lines 693-694), the fresh empty list included; a list has
  every item walked (lines 695-697); anything else is left alone. The walk ends on every
  tree, as the termination proof shows; the interpreter's limit on the depth of recursion
  is not modelled.
\<close>

function remove_all_analysis_variables :: "json \<Rightarrow> json" where
  "remove_all_analysis_variables (JDict kvs) =
     JDict (map (\<lambda>(k, v). (k, remove_all_analysis_variables v))
              (clear_analysis_variables kvs))"
| "remove_all_analysis_variables (JList xs) = JList (map remove_all_analysis_variables xs)"
| "remove_all_analysis_variables JNull = JNull"
| "remove_all_analysis_variables (JBool b) = JBool b"
| "remove_all_analysis_variables (JInt i) = JInt i"
| "remove_all_analysis_variables (JFloat r) = JFloat r"
| "remove_all_analysis_variables (JStr s) = JStr s"
  by pat_completeness auto
termination
  by (relation "measure weight") (auto simp: weight_item weight_clear_analysis_variables)

subsection \<open>Link-prune: \<^verbatim>\<open>remove_links_parent_refs\<close> (main.py, lines 774-787)\<close>

text \<open>
  Lines 777-782, the mutation of the dict at hand: under the parent key
  \<^verbatim>\<open>'analysisVariables'\<close>, a \<^verbatim>\<open>'_links'\<close> field that is a dict is replaced by a dict
  holding its \<^verbatim>\<open>'self'\<close> entry alone, or by the empty dict when it has none.
\<close>

definition prune_links ::
  "(string \<times> json) list \<Rightarrow> string option \<Rightarrow> (string \<times> json) list" where
  "prune_links kvs parent_key =
     (if parent_key = Some ''analysisVariables'' then
        (case map_of kvs ''_links'' of
           Some (JDict links) \<Rightarrow>
             (case map_of links ''self'' of
                Some s \<Rightarrow> dict_set kvs ''_links'' (JDict [(''self'', s)])
              | None \<Rightarrow> dict_set kvs ''_links'' (JDict []))
         | _ \<Rightarrow> kvs)
      else kvs)"

lemma weight_prune_links:
  assumes "(a, b) \<in> set (prune_links kvs parent_key)"
  shows "weight b < weight (JDict kvs)"
proof (cases "parent_key = Some ''analysisVariables''")
  case False
  with assms show ?thesis
    by (simp add: prune_links_def weight_value)
next
  case pk: True
  show ?thesis
  proof (cases "map_of kvs ''_links''")
    case None
    with assms pk show ?thesis
      by (simp add: prune_links_def weight_value)
  next
    case (Some l)
    then have old: "(''_links'', l) \<in> set kvs"
      by (rule map_of_SomeD)
    show ?thesis
    proof (cases l)
      case (JDict links)
      show ?thesis
      proof (cases "map_of links ''self''")
        case None
        have "weight (JDict []) \<le> weight l"
          by (rule weight_leaf_le)
        with old show ?thesis
          using assms pk Some JDict None
          by (auto simp: prune_links_def intro: weight_dict_set)
      next
        case (Some s)
        then have "weight (JDict [(''self'', s)]) \<le> weight l"
          using JDict by (simp add: weight_singleton)
        with old show ?thesis
          using assms pk \<open>map_of kvs ''_links'' = Some l\<close> JDict Some
          by (auto simp: prune_links_def intro: weight_dict_set)
      qed
    qed (use assms pk Some in \<open>simp_all add: prune_links_def weight_value\<close>)
  qed
qed

text \<open>
  The walk: a dict is first pruned, then every value of the dict as it then stands is
  walked with its own key as the parent key (lines 783-784), the pruned \<^verbatim>\<open>'_links'\<close>
  included; the items of a list are walked with the parent key of the list (lines 785-787).
\<close>

function remove_links_parent_refs :: "json \<Rightarrow> string option \<Rightarrow> json" where
  "remove_links_parent_refs (JDict kvs) parent_key =
     JDict (map (\<lambda>(k, v). (k, remove_links_parent_refs v (Some k)))
              (prune_links kvs parent_key))"
| "remove_links_parent_refs (JList xs) parent_key =
     JList (map (\<lambda>item. remove_links_parent_refs item parent_key) xs)"
| "remove_links_parent_refs JNull parent_key = JNull"
| "remove_links_parent_refs (JBool b) parent_key = JBool b"
| "remove_links_parent_refs (JInt i) parent_key = JInt i"
| "remove_links_parent_refs (JFloat r) parent_key = JFloat r"
| "remove_links_parent_refs (JStr s) parent_key = JStr s"
  by pat_completeness auto
termination
  by (relation "measure (\<lambda>(obj, parent_key). weight obj)")
    (auto simp: weight_item weight_prune_links)

subsection \<open>Field-whitelist-flatten: the minimization in \<^verbatim>\<open>get_package_ct_info\<close> (main.py, lines 1039-1059)\<close>

text \<open>Lines 1051-1055: the dict appended for one term.\<close>

definition clean_term :: "json \<Rightarrow> string + json" where
  "clean_term t =
     (case py_get t ''conceptId'' JNull of
        Inl err \<Rightarrow> Inl err
      | Inr concept_id \<Rightarrow>
          (case py_get t ''submissionValue'' JNull of
             Inl err \<Rightarrow> Inl err
           | Inr submission_value \<Rightarrow>
               Inr (JDict [(''conceptId'', concept_id),
                           (''submissionValue'', submission_value)])))"

text \<open>
  Lines 1049-1055: the terms of one codelist. The test \<^verbatim>\<open>"terms" in cl\<close> is reached
  for a dict only, since \<^verbatim>\<open>cl.get\<close> has raised for anything else.
\<close>

definition clean_terms :: "json \<Rightarrow> string + json list" where
  "clean_terms cl =
     (case cl of
        JDict kvs \<Rightarrow>
          (case map_of kvs ''terms'' of
             None \<Rightarrow> Inr []
           | Some ts \<Rightarrow>
               (case py_iter ts of
                  Inl err \<Rightarrow> Inl err
                | Inr items \<Rightarrow> for_each clean_term items))
      | _ \<Rightarrow> Inr [])"

text \<open>Lines 1042-1057: the dict appended for one codelist.\<close>

definition clean_codelist :: "json \<Rightarrow> string + json" where
  "clean_codelist cl =
     (case py_get cl ''conceptId'' JNull of
        Inl err \<Rightarrow> Inl err
      | Inr concept_id \<Rightarrow>
          (case py_get cl ''submissionValue'' JNull of
             Inl err \<Rightarrow> Inl err
           | Inr submission_value \<Rightarrow>
               (case clean_terms cl of
                  Inl err \<Rightarrow> Inl err
                | Inr terms \<Rightarrow>
                    Inr (JDict [(''conceptId'', concept_id),
                                (''submissionValue'', submission_value),
                                (''terms'', JList terms)]))))"

text \<open>
  Lines 1039-1059: \<^verbatim>\<open>final_data\<close>, built from \<^verbatim>\<open>raw_data\<close>; \<open>Inl\<close> when a step raises.
\<close>

definition minimize_codelists :: "json \<Rightarrow> string + json" where
  "minimize_codelists raw_data =
     (case py_get raw_data ''codelists'' (JList []) of
        Inl err \<Rightarrow> Inl err
      | Inr codelists \<Rightarrow>
          (case py_iter codelists of
             Inl err \<Rightarrow> Inl err
           | Inr items \<Rightarrow>
               (case for_each clean_codelist items of
                  Inl err \<Rightarrow> Inl err
                | Inr minimized_codelists \<Rightarrow>
                    Inr (JDict [(''codelists'', JList minimized_codelists)]))))"

section \<open>The environment of an operation\<close>

text \<open>
  One HTTP GET as the program asks for it: \<^verbatim>\<open>client.get(url, headers=hdr, timeout=...)\<close>.
  A header value is what the program puts there, \<^verbatim>\<open>None\<close> included; the timeout is in
  seconds.
\<close>

record request =
  url :: string
  headers :: "(string \<times> string option) list"
  timeout :: nat

text \<open>
  How the three lines \<^verbatim>\<open>client.get(...)\<close>, \<^verbatim>\<open>response.raise_for_status()\<close>,
  \<^verbatim>\<open>response.json()\<close> end: with the decoded body, or with an exception. In httpx a
  \<^verbatim>\<open>TimeoutException\<close> is a \<^verbatim>\<open>RequestError\<close>; \<open>RequestError\<close> below stands for the
  request errors that are no timeout. An \<^verbatim>\<open>HTTPStatusError\<close> carries the status code and
  the body text of the response, the others \<^verbatim>\<open>str(e)\<close>.
\<close>

datatype http_outcome =
    Success json
  | TimeoutException string
  | HTTPStatusError nat string
  | RequestError string
  | OtherException string

text \<open>
  What an operation reads from the world: \<^verbatim>\<open>os.getenv("CDISC_API_KEY")\<close>, and how the
  network answers a request.
\<close>

record env =
  api_key :: "string option"
  http_get :: "request \<Rightarrow> http_outcome"

text \<open>What an operation does: the string it returns, and the requests it has issued.\<close>

record run =
  returned :: string
  requests :: "request list"

text \<open>Python's truth value of a string that may be \<^verbatim>\<open>None\<close>.\<close>

definition truthy :: "string option \<Rightarrow> bool" where
  "truthy s = (case s of None \<Rightarrow> False | Some x \<Rightarrow> x \<noteq> [])"

text \<open>The dict \<^verbatim>\<open>hdr\<close> every operation builds.\<close>

definition hdr :: "string option \<Rightarrow> (string \<times> string option) list" where
  "hdr key =
     [(''Cache-Control'', Some ''no-cache''), (''api-key'', key),
      (''Accept'', Some ''application/json'')]"

text \<open>A return before the HTTP client is reached.\<close>

definition no_request :: "string \<Rightarrow> run" where
  "no_request s = \<lparr>returned = s, requests = []\<rparr>"

definition missing_api_key :: string where
  "missing_api_key = ''Error: CDISC_API_KEY environment variable not found.''"

text \<open>
  The \<^verbatim>\<open>try\<close> block all operations but the first share (lines 100-116 and their
  copies): one request; the decoded body goes to \<open>on_success\<close>, and the three
  \<^verbatim>\<open>except\<close> clauses turn an exception into a string. A timeout is caught by
  \<^verbatim>\<open>except httpx.RequestError\<close>.
\<close>

definition fetch :: "env \<Rightarrow> string \<Rightarrow> nat \<Rightarrow> (json \<Rightarrow> string) \<Rightarrow> run" where
  "fetch e u t on_success =
     (let req = \<lparr>url = u, headers = hdr (api_key e), timeout = t\<rparr> in
      \<lparr>returned =
         (case http_get e req of
            Success data \<Rightarrow> on_success data
          | HTTPStatusError status_code body \<Rightarrow>
              ''API Error: HTTP '' @ str_nat status_code @ '' - '' @ body
          | TimeoutException msg \<Rightarrow> ''Network Error: '' @ msg
          | RequestError msg \<Rightarrow> ''Network Error: '' @ msg
          | OtherException msg \<Rightarrow> ''Execution Error: '' @ msg),
       requests = [req]\<rparr>)"

text \<open>
  Lines 105-109 and their copies in ten more operations: the length test is on the
  serialized text, the slice is taken of the decoded value \<^verbatim>\<open>data\<close>, and an exception of
  the slice is caught by \<^verbatim>\<open>except Exception\<close> (line 115).
\<close>

definition sliced_reply :: "json \<Rightarrow> string" where
  "sliced_reply data =
     (if length (json_dumps data) > 130000 then
        (case py_slice data 130000 of
           Inl msg \<Rightarrow> ''Execution Error: '' @ msg
         | Inr part \<Rightarrow>
             json_dumps part @ ''...'' @ ''The data is too long, please shorten the request.'')
      else json_dumps data)"

definition fetch_sliced :: "env \<Rightarrow> string \<Rightarrow> run" where
  "fetch_sliced e u = fetch e u 15 sliced_reply"

text \<open>Lines 746-749, 842-845 and 916-919: the slice is taken of the serialized text.\<close>

definition capped_reply :: "string \<Rightarrow> string" where
  "capped_reply result =
     (if length result > 130000
      then take 130000 result @ ''...'' @ ''The data is too long, please shorten the request.''
      else result)"

text \<open>Lines 1063-1066, 1126-1129 and 1192-1195.\<close>

definition truncated_reply :: "string \<Rightarrow> string" where
  "truncated_reply json_str =
     (if length json_str > 130000
      then take 130000 json_str @ [CHR 0x0A] @ ''... [Truncated]''
      else json_str)"

section \<open>The allow-lists\<close>

text \<open>The list of line 87, which \<^verbatim>\<open>get_sdtmig_class_info\<close> tests \<^verbatim>\<open>className\<close> against.\<close>

definition sdtmig_classes :: "string list" where
  "sdtmig_classes =
     [''GeneralObservations'', ''Interventions'', ''Events'', ''Findings'', ''FindingsAbout'',
      ''SpecialPurpose'', ''TrialDesign'', ''StudyReference'', ''Relationship'']"

text \<open>The list of line 141, which \<^verbatim>\<open>get_sdtmig_dataset_info\<close> tests \<^verbatim>\<open>dataset\<close> against.\<close>

definition sdtmig_datasets :: "string list" where
  "sdtmig_datasets =
     [''AG'', ''CM'', ''EC'', ''EX'', ''ML'', ''PR'', ''SU'', ''AE'', ''BE'', ''CE'', ''DS'',
      ''DV'', ''HO'', ''MH'', ''BS'', ''CP'', ''DA'', ''DD'', ''EG'', ''FT'', ''GF'', ''IE'',
      ''IS'', ''LB'', ''MB'', ''MI'', ''MK'', ''MS'', ''NV'', ''OE'', ''PC'', ''PE'', ''PP'',
      ''QS'', ''RE'', ''RP'', ''RS'', ''SC'', ''SS'', ''TR'', ''TU'', ''UR'', ''VS'', ''FA'',
      ''SR'', ''CO'', ''DM'', ''SE'', ''SM'', ''SV'', ''TA'', ''TD'', ''TE'', ''TI'']"

text \<open>The list of line 201, which \<^verbatim>\<open>get_sdtm_model_class_info\<close> tests \<^verbatim>\<open>className\<close> against.\<close>

definition sdtm_model_classes :: "string list" where
  "sdtm_model_classes =
     [''GeneralObservations'', ''Interventions'', ''Events'', ''Findings'', ''FindingsAbout'',
      ''SpecialPurpose'', ''AssociatedPersons'', ''TrialDesign'', ''StudyReference'',
      ''Relationship'']"

text \<open>The list of line 258, which \<^verbatim>\<open>get_sdtm_model_dataset_info\<close> tests \<^verbatim>\<open>dataset\<close> against.\<close>

definition sdtm_model_datasets :: "string list" where
  "sdtm_model_datasets =
     [''DM'', ''CO'', ''SE'', ''SJ'', ''SV'', ''SM'', ''TE'', ''TA'', ''TX'', ''TT'', ''TP'',
      ''TV'', ''TD'', ''TM'', ''TI'', ''TS'', ''AC'', ''DI'', ''OI'', ''RELREC'', ''SUPPQUAL'',
      ''POOLDEF'', ''RELSUB'', ''RELREF'', ''DR'', ''APRELSUB'', ''RELSPEC'']"

text \<open>The list of line 317, which \<^verbatim>\<open>get_sendig_class_info\<close> tests \<^verbatim>\<open>className\<close> against.\<close>

definition sendig_classes :: "string list" where
  "sendig_classes =
     [''GeneralObservations'', ''SpecialPurpose'', ''Interventions'', ''Events'', ''Findings'',
      ''TrialDesign'', ''Relationship'']"

text \<open>The list of line 373, which \<^verbatim>\<open>get_sendig_dataset_info\<close> tests \<^verbatim>\<open>dataset\<close> against.\<close>

definition sendig_datasets :: "string list" where
  "sendig_datasets =
     [''DM'', ''CO'', ''SE'', ''EX'', ''DS'', ''BW'', ''BG'', ''CL'', ''DD'', ''FW'', ''LB'',
      ''MA'', ''MI'', ''OM'', ''PM'', ''PC'', ''PP'', ''SC'', ''TF'', ''VS'', ''EG'', ''CV'',
      ''RE'', ''TE'', ''TA'', ''TX'', ''TS'', ''RELREC'', ''SUPPQUAL'', ''POOLDEF'']"

text \<open>The list of line 431, which \<^verbatim>\<open>get_cdashig_class_info\<close> tests \<^verbatim>\<open>className\<close> against.\<close>

definition cdashig_classes :: "string list" where
  "cdashig_classes =
     [''Interventions'', ''Events'', ''Findings'', ''FindingsAbout'', ''SpecialPurpose'']"

text \<open>The list of line 489, which \<^verbatim>\<open>get_cdashig_domain_info\<close> tests \<^verbatim>\<open>domains\<close> against.\<close>

definition cdashig_domains :: "string list" where
  "cdashig_domains =
     [''AG'', ''CM'', ''EC'', ''EX'', ''ML'', ''PR'', ''SU'', ''AE'', ''CE'', ''DS'', ''DV'',
      ''HO'', ''MH'', ''SA'', ''CP'', ''CV'', ''DA'', ''DD'', ''EG'', ''GF'', ''IE'', ''LB'',
      ''MB'', ''MI'', ''MK'', ''MS'', ''NV'', ''OE'', ''PC'', ''PE'', ''RE'', ''RP'', ''RS'',
      ''SC'', ''TR'', ''TU'', ''UR'', ''VS'', ''FA'', ''SR'', ''CO'', ''DM'']"

text \<open>The list of line 600, which \<^verbatim>\<open>get_cdash_model_class_info\<close> tests \<^verbatim>\<open>className\<close> against.\<close>

definition cdash_model_classes :: "string list" where
  "cdash_model_classes =
     [''Interventions'', ''Events'', ''Findings'', ''FindingsAbout'', ''SpecialPurpose'',
      ''Identifiers'', ''AssociatedPersonsIdentifiers'', ''Timing'']"

text \<open>The list of line 656, which \<^verbatim>\<open>get_cdash_model_domain_info\<close> tests \<^verbatim>\<open>domain\<close> against.\<close>

definition cdash_model_domains :: "string list" where
  "cdash_model_domains =
     [''AE'', ''CO'', ''DM'', ''DS'', ''MH'', ''MS'']"

text \<open>\<^verbatim>\<open>ALLOWED_adam_datastructure_combinations\<close> (line 760): a dict, in the order it is written.\<close>

definition ALLOWED_adam_datastructure_combinations :: "(string \<times> string list) list" where
  "ALLOWED_adam_datastructure_combinations =
     [(''adam-nca-1-0'', [''ADNCA'']),
      (''adamig-1-0'', [''ADSL'', ''BDS'']),
      (''adamig-1-1'', [''ADSL'', ''BDS'']),
      (''adam-occds-1-0'', [''OCCDS'']),
      (''adam-occds-1-1'', [''OCCDS'', ''AE'']),
      (''adam-adae-1-0'', [''ADAE'']),
      (''adam-poppk-1-0'', [''ADPPK'']),
      (''adam-tte-1-0'', [''ADTTE'']),
      (''adamig-1-2'', [''ADSL'', ''BDS'']),
      (''adam-md-1-0'', [''ADDL'', ''MDOCCDS'', ''MDBDS'', ''MDTTE'']),
      (''adamig-1-3'', [''ADSL'', ''BDS'', ''TTE''])]"

text \<open>\<^verbatim>\<open>ALLOWED_qrs_combinations\<close> (line 855): a dict, in the order it is written.\<close>

definition ALLOWED_qrs_combinations :: "(string \<times> string list) list" where
  "ALLOWED_qrs_combinations =
     [(''AIMS01'', [''2-0'']),
      (''APCH1'', [''1-0'']),
      (''ATLAS1'', [''1-0'']),
      (''CGI02'', [''2-1'']),
      (''HAMA1'', [''2-1'']),
      (''KFSS1'', [''2-0'']),
      (''KPSS1'', [''2-0'']),
      (''PGI01'', [''1-1'']),
      (''SIXMW1'', [''1-0''])]"

text \<open>\<^verbatim>\<open>ct_package\<close> (lines 930-960).\<close>

definition ct_package :: "string list" where
  "ct_package =
     [''adamct-2014-09-26'', ''adamct-2015-12-18'', ''adamct-2016-03-25'',
      ''adamct-2016-09-30'', ''adamct-2016-12-16'', ''adamct-2017-03-31'',
      ''adamct-2017-09-29'', ''adamct-2018-12-21'', ''adamct-2019-03-29'',
      ''adamct-2019-12-20'', ''adamct-2020-03-27'', ''adamct-2020-06-26'',
      ''adamct-2020-11-06'', ''adamct-2021-12-17'', ''adamct-2022-06-24'',
      ''adamct-2023-03-31'', ''adamct-2023-06-30'', ''adamct-2024-03-29'',
      ''adamct-2024-09-27'', ''adamct-2025-03-28'', ''adamct-2025-09-26'',
      ''cdashct-2014-09-26'', ''cdashct-2015-03-27'', ''cdashct-2016-03-25'',
      ''cdashct-2016-09-30'', ''cdashct-2016-12-16'', ''cdashct-2017-09-29'',
      ''cdashct-2018-03-30'', ''cdashct-2018-06-29'', ''cdashct-2018-09-28'',
      ''cdashct-2018-12-21'', ''cdashct-2019-03-29'', ''cdashct-2019-06-28'',
      ''cdashct-2019-12-20'', ''cdashct-2020-11-06'', ''cdashct-2020-12-18'',
      ''cdashct-2021-03-26'', ''cdashct-2021-06-25'', ''cdashct-2021-09-24'',
      ''cdashct-2021-12-17'', ''cdashct-2022-06-24'', ''cdashct-2022-09-30'',
      ''cdashct-2022-12-16'', ''cdashct-2024-09-27'', ''cdashct-2025-03-28'',
      ''coact-2014-12-19'', ''coact-2015-03-27'', ''ddfct-2022-09-30'', ''ddfct-2022-12-16'',
      ''ddfct-2023-03-31'', ''ddfct-2023-06-30'', ''ddfct-2023-09-29'', ''ddfct-2023-12-15'',
      ''ddfct-2024-03-29'', ''ddfct-2024-09-27'', ''ddfct-2025-09-26'',
      ''define-xmlct-2019-12-20'', ''define-xmlct-2020-03-27'', ''define-xmlct-2020-06-26'',
      ''define-xmlct-2020-11-06'', ''define-xmlct-2020-12-18'', ''define-xmlct-2021-03-26'',
      ''define-xmlct-2021-06-25'', ''define-xmlct-2021-09-24'', ''define-xmlct-2021-12-17'',
      ''define-xmlct-2022-09-30'', ''define-xmlct-2022-12-16'', ''define-xmlct-2023-06-30'',
      ''define-xmlct-2023-12-15'', ''define-xmlct-2024-03-29'', ''define-xmlct-2024-09-27'',
      ''define-xmlct-2025-03-28'', ''define-xmlct-2025-09-26'', ''glossaryct-2020-12-18'',
      ''glossaryct-2021-12-17'', ''glossaryct-2022-12-16'', ''glossaryct-2023-12-15'',
      ''glossaryct-2024-09-27'', ''glossaryct-2025-09-26'', ''mrctct-2024-03-29'',
      ''mrctct-2024-09-27'', ''mrctct-2025-09-26'', ''protocolct-2017-03-31'',
      ''protocolct-2017-06-30'', ''protocolct-2017-09-29'', ''protocolct-2018-03-30'',
      ''protocolct-2018-06-29'', ''protocolct-2018-09-28'', ''protocolct-2019-03-29'',
      ''protocolct-2019-06-28'', ''protocolct-2019-09-27'', ''protocolct-2019-12-20'',
      ''protocolct-2020-03-27'', ''protocolct-2020-06-26'', ''protocolct-2020-11-06'',
      ''protocolct-2020-12-18'', ''protocolct-2021-03-26'', ''protocolct-2021-06-25'',
      ''protocolct-2021-09-24'', ''protocolct-2021-12-17'', ''protocolct-2022-03-25'',
      ''protocolct-2022-06-24'', ''protocolct-2022-09-30'', ''protocolct-2022-12-16'',
      ''protocolct-2023-03-31'', ''protocolct-2023-06-30'', ''protocolct-2023-09-29'',
      ''protocolct-2023-12-15'', ''protocolct-2024-03-29'', ''protocolct-2024-09-27'',
      ''protocolct-2025-03-28'', ''protocolct-2025-09-26'', ''qrsct-2015-06-26'',
      ''qrsct-2015-09-25'', ''qs-ftct-2014-09-26'', ''sdtmct-2014-09-26'',
      ''sdtmct-2014-12-19'', ''sdtmct-2015-03-27'', ''sdtmct-2015-06-26'',
      ''sdtmct-2015-09-25'', ''sdtmct-2015-12-18'', ''sdtmct-2016-03-25'',
      ''sdtmct-2016-06-24'', ''sdtmct-2016-09-30'', ''sdtmct-2016-12-16'',
      ''sdtmct-2017-03-31'', ''sdtmct-2017-06-30'', ''sdtmct-2017-09-29'',
      ''sdtmct-2017-12-22'', ''sdtmct-2018-03-30'', ''sdtmct-2018-06-29'',
      ''sdtmct-2018-09-28'', ''sdtmct-2018-12-21'', ''sdtmct-2019-03-29'',
      ''sdtmct-2019-06-28'', ''sdtmct-2019-09-27'', ''sdtmct-2019-12-20'',
      ''sdtmct-2020-03-27'', ''sdtmct-2020-06-26'', ''sdtmct-2020-11-06'',
      ''sdtmct-2020-12-18'', ''sdtmct-2021-03-26'', ''sdtmct-2021-06-25'',
      ''sdtmct-2021-09-24'', ''sdtmct-2021-12-17'', ''sdtmct-2022-03-25'',
      ''sdtmct-2022-06-24'', ''sdtmct-2022-09-30'', ''sdtmct-2022-12-16'',
      ''sdtmct-2023-03-31'', ''sdtmct-2023-06-30'', ''sdtmct-2023-09-29'',
      ''sdtmct-2023-12-15'', ''sdtmct-2024-03-29'', ''sdtmct-2024-09-27'',
      ''sdtmct-2025-03-28'', ''sdtmct-2025-09-26'', ''sendct-2014-09-26'',
      ''sendct-2014-12-19'', ''sendct-2015-03-27'', ''sendct-2015-06-26'',
      ''sendct-2015-09-25'', ''sendct-2015-12-18'', ''sendct-2016-03-25'',
      ''sendct-2016-06-24'', ''sendct-2016-09-30'', ''sendct-2016-12-16'',
      ''sendct-2017-03-31'', ''sendct-2017-06-30'', ''sendct-2017-09-29'',
      ''sendct-2017-12-22'', ''sendct-2018-03-30'', ''sendct-2018-06-29'',
      ''sendct-2018-09-28'', ''sendct-2018-12-21'', ''sendct-2019-03-29'',
      ''sendct-2019-06-28'', ''sendct-2019-09-27'', ''sendct-2019-12-20'',
      ''sendct-2020-03-27'', ''sendct-2020-06-26'', ''sendct-2020-11-06'',
      ''sendct-2020-12-18'', ''sendct-2021-03-26'', ''sendct-2021-06-25'',
      ''sendct-2021-09-24'', ''sendct-2021-12-17'', ''sendct-2022-03-25'',
      ''sendct-2022-06-24'', ''sendct-2022-09-30'', ''sendct-2022-12-16'',
      ''sendct-2023-03-31'', ''sendct-2023-06-30'', ''sendct-2023-09-29'',
      ''sendct-2023-12-15'', ''sendct-2024-03-29'', ''sendct-2024-09-27'',
      ''sendct-2025-03-28'', ''sendct-2025-09-26'', ''tmfct-2024-09-27'']"

section \<open>The operations\<close>

text \<open>
  \<^verbatim>\<open>get_CDISC_Library_api_product_list\<close> (main.py, lines 24-59): no test of the API key,
  no length test, and four \<^verbatim>\<open>except\<close> clauses of its own.
\<close>

definition get_CDISC_Library_api_product_list :: "env \<Rightarrow> run" where
  "get_CDISC_Library_api_product_list e =
     (let req = \<lparr>url = ''https://api.library.cdisc.org/api/mdr/products?expand=false'',
                 headers = hdr (api_key e), timeout = 15\<rparr> in
      \<lparr>returned =
         (case http_get e req of
            Success data \<Rightarrow> json_dumps_unicode data
          | TimeoutException msg \<Rightarrow>
              ''Error: The request to CDISC Library timed out. Please try again later.''
          | HTTPStatusError status_code body \<Rightarrow>
              ''API Error: CDISC Library returned status '' @ str_nat status_code @ ''.''
          | RequestError msg \<Rightarrow>
              ''Network Error: Unable to connect to CDISC Library. Details: '' @ msg
          | OtherException msg \<Rightarrow> ''Unexpected Error: '' @ msg),
       requests = [req]\<rparr>)"

text \<open>\<^verbatim>\<open>get_sdtmig_class_info\<close> (main.py, lines 62-116).\<close>

definition get_sdtmig_class_info :: "env \<Rightarrow> string \<Rightarrow> string option \<Rightarrow> run" where
  "get_sdtmig_class_info e version className =
     (if \<not> truthy (api_key e) then no_request missing_api_key
      else
        let base_url = ''https://api.library.cdisc.org/api/mdr/sdtmig/'' @ version @ ''/classes'' in
        case className of
          None \<Rightarrow> fetch_sliced e base_url
        | Some x \<Rightarrow>
            if x = [] then fetch_sliced e base_url
            else if x \<in> set sdtmig_classes
            then fetch_sliced e (base_url @ ''/'' @ x @ ''/datasets?expand=false'')
            else no_request (''Error: className is invalid, got '' @ quoted x))"

text \<open>\<^verbatim>\<open>get_sdtmig_dataset_info\<close> (main.py, lines 119-172).\<close>

definition get_sdtmig_dataset_info :: "env \<Rightarrow> string \<Rightarrow> string \<Rightarrow> run" where
  "get_sdtmig_dataset_info e version dataset =
     (if \<not> truthy (api_key e) then no_request missing_api_key
      else
        let base_url = ''https://api.library.cdisc.org/api/mdr/sdtmig/'' @ version @ ''/datasets'' in
        if dataset = [] then fetch_sliced e base_url
        else if dataset \<in> set sdtmig_datasets
        then fetch_sliced e (base_url @ ''/'' @ dataset)
        else no_request (''Error: dataset is invalid, got '' @ quoted dataset))"

text \<open>\<^verbatim>\<open>get_sdtm_model_class_info\<close> (main.py, lines 176-230).\<close>

definition get_sdtm_model_class_info :: "env \<Rightarrow> string \<Rightarrow> string option \<Rightarrow> run" where
  "get_sdtm_model_class_info e version className =
     (if \<not> truthy (api_key e) then no_request missing_api_key
      else
        let base_url = ''https://api.library.cdisc.org/api/mdr/sdtm/'' @ version @ ''/classes'' in
        case className of
          None \<Rightarrow> fetch_sliced e base_url
        | Some x \<Rightarrow>
            if x = [] then fetch_sliced e base_url
            else if x \<in> set sdtm_model_classes
            then fetch_sliced e (base_url @ ''/'' @ x)
            else no_request (''Error: className is invalid, got '' @ quoted x))"

text \<open>\<^verbatim>\<open>get_sdtm_model_dataset_info\<close> (main.py, lines 234-288).\<close>

definition get_sdtm_model_dataset_info :: "env \<Rightarrow> string \<Rightarrow> string option \<Rightarrow> run" where
  "get_sdtm_model_dataset_info e version dataset =
     (if \<not> truthy (api_key e) then no_request missing_api_key
      else
        let base_url = ''https://api.library.cdisc.org/api/mdr/sdtm/'' @ version @ ''/datasets'' in
        case dataset of
          None \<Rightarrow> fetch_sliced e base_url
        | Some x \<Rightarrow>
            if x = [] then fetch_sliced e base_url
            else if x \<in> set sdtm_model_datasets
            then fetch_sliced e (base_url @ ''/'' @ x)
            else no_request (''Error: dataset is invalid, got '' @ quoted x))"

text \<open>\<^verbatim>\<open>get_sendig_class_info\<close> (main.py, lines 292-346).\<close>

definition get_sendig_class_info :: "env \<Rightarrow> string \<Rightarrow> string option \<Rightarrow> run" where
  "get_sendig_class_info e version className =
     (if \<not> truthy (api_key e) then no_request missing_api_key
      else
        let base_url = ''https://api.library.cdisc.org/api/mdr/sendig/'' @ version @ ''/classes'' in
        case className of
          None \<Rightarrow> fetch_sliced e base_url
        | Some x \<Rightarrow>
            if x = [] then fetch_sliced e base_url
            else if x \<in> set sendig_classes
            then fetch_sliced e (base_url @ ''/'' @ x)
            else no_request (''Error: className is invalid, got '' @ quoted x))"

text \<open>\<^verbatim>\<open>get_sendig_dataset_info\<close> (main.py, lines 349-403).\<close>

definition get_sendig_dataset_info :: "env \<Rightarrow> string \<Rightarrow> string option \<Rightarrow> run" where
  "get_sendig_dataset_info e version dataset =
     (if \<not> truthy (api_key e) then no_request missing_api_key
      else
        let base_url = ''https://api.library.cdisc.org/api/mdr/sendig/'' @ version @ ''/datasets'' in
        case dataset of
          None \<Rightarrow> fetch_sliced e base_url
        | Some x \<Rightarrow>
            if x = [] then fetch_sliced e base_url
            else if x \<in> set sendig_datasets
            then fetch_sliced e (base_url @ ''/'' @ x)
            else no_request (''Error: dataset is invalid, got '' @ quoted x))"

text \<open>\<^verbatim>\<open>get_cdashig_class_info\<close> (main.py, lines 406-460).\<close>

definition get_cdashig_class_info :: "env \<Rightarrow> string \<Rightarrow> string option \<Rightarrow> run" where
  "get_cdashig_class_info e version className =
     (if \<not> truthy (api_key e) then no_request missing_api_key
      else
        let base_url = ''https://api.library.cdisc.org/api/mdr/cdashig/'' @ version @ ''/classes'' in
        case className of
          None \<Rightarrow> fetch_sliced e base_url
        | Some x \<Rightarrow>
            if x = [] then fetch_sliced e base_url
            else if x \<in> set cdashig_classes
            then fetch_sliced e (base_url @ ''/'' @ x @ ''/domains'')
            else no_request (''Error: className is invalid, got '' @ quoted x))"

text \<open>\<^verbatim>\<open>get_cdashig_domain_info\<close> (main.py, lines 463-519).\<close>

definition get_cdashig_domain_info :: "env \<Rightarrow> string \<Rightarrow> string option \<Rightarrow> run" where
  "get_cdashig_domain_info e version domains =
     (if \<not> truthy (api_key e) then no_request missing_api_key
      else
        let base_url = ''https://api.library.cdisc.org/api/mdr/cdashig/'' @ version @ ''/domains'' in
        case domains of
          None \<Rightarrow> fetch_sliced e base_url
        | Some x \<Rightarrow>
            if x = [] then fetch_sliced e base_url
            else if x \<in> set cdashig_domains
            then fetch_sliced e (base_url @ ''/'' @ x)
            else no_request (''Error: domains is invalid, got '' @ quoted x))"

text \<open>\<^verbatim>\<open>get_cdashig_scenarios_info\<close> (main.py, lines 522-572).\<close>

definition get_cdashig_scenarios_info :: "env \<Rightarrow> string \<Rightarrow> string option \<Rightarrow> run" where
  "get_cdashig_scenarios_info e version scenario =
     (if \<not> truthy (api_key e) then no_request missing_api_key
      else
        let base_url = ''https://api.library.cdisc.org/api/mdr/cdashig/'' @ version @ ''/scenarios'' in
        case scenario of
          None \<Rightarrow> fetch_sliced e base_url
        | Some x \<Rightarrow>
            if x = [] then fetch_sliced e base_url
            else fetch_sliced e (base_url @ ''/'' @ x))"

text \<open>\<^verbatim>\<open>get_cdash_model_class_info\<close> (main.py, lines 575-629).\<close>

definition get_cdash_model_class_info :: "env \<Rightarrow> string \<Rightarrow> string option \<Rightarrow> run" where
  "get_cdash_model_class_info e version className =
     (if \<not> truthy (api_key e) then no_request missing_api_key
      else
        let base_url = ''https://api.library.cdisc.org/api/mdr/cdash/'' @ version @ ''/classes'' in
        case className of
          None \<Rightarrow> fetch_sliced e base_url
        | Some x \<Rightarrow>
            if x = [] then fetch_sliced e base_url
            else if x \<in> set cdash_model_classes
            then fetch_sliced e (base_url @ ''/'' @ x)
            else no_request (''Error: className is invalid, got '' @ quoted x))"

text \<open>\<^verbatim>\<open>get_cdash_model_domain_info\<close> (main.py, lines 632-685).\<close>

definition get_cdash_model_domain_info :: "env \<Rightarrow> string \<Rightarrow> string option \<Rightarrow> run" where
  "get_cdash_model_domain_info e version domain =
     (if \<not> truthy (api_key e) then no_request missing_api_key
      else
        let base_url = ''https://api.library.cdisc.org/api/mdr/cdash/'' @ version @ ''/domains'' in
        case domain of
          None \<Rightarrow> fetch_sliced e base_url
        | Some x \<Rightarrow>
            if x = [] then fetch_sliced e base_url
            else if x \<in> set cdash_model_domains
            then fetch_sliced e (base_url @ ''/'' @ x)
            else no_request (''Error: domain is invalid, got '' @ quoted x))"

text \<open>\<^verbatim>\<open>get_adam_product_info\<close> (main.py, lines 700-756): the product is not tested.\<close>

definition get_adam_product_info :: "env \<Rightarrow> string \<Rightarrow> run" where
  "get_adam_product_info e product =
     (if \<not> truthy (api_key e) then no_request missing_api_key
      else
        fetch e (''https://api.library.cdisc.org/api/mdr/adam/'' @ product) 15
          (\<lambda>json_data. capped_reply (json_dumps (remove_all_analysis_variables json_data))))"

text \<open>\<^verbatim>\<open>get_adam_datastructure_info\<close> (main.py, lines 789-852).\<close>

definition get_adam_datastructure_info :: "env \<Rightarrow> string \<Rightarrow> string \<Rightarrow> run" where
  "get_adam_datastructure_info e product datastructure =
     (if \<not> truthy (api_key e) then no_request missing_api_key
      else
        case map_of ALLOWED_adam_datastructure_combinations product of
          None \<Rightarrow>
            no_request (''Error: Invalid product '' @ quoted product @
              ''. Valid products are: '' @
              join '', '' (map fst ALLOWED_adam_datastructure_combinations))
        | Some valid \<Rightarrow>
            if datastructure \<notin> set valid
            then no_request (''Error: Invalid datastructure '' @ quoted datastructure @
              '' for product '' @ quoted product @
              ''. Valid datastructures are: '' @ join '', '' valid)
            else
              fetch e (''https://api.library.cdisc.org/api/mdr/adam/'' @ product @
                  ''/datastructures/'' @ datastructure) 15
                (\<lambda>json_data. capped_reply (json_dumps (remove_links_parent_refs json_data None))))"

text \<open>\<^verbatim>\<open>get_qrs_info\<close> (main.py, lines 867-926).\<close>

definition get_qrs_info :: "env \<Rightarrow> string \<Rightarrow> string \<Rightarrow> run" where
  "get_qrs_info e instrument version =
     (if \<not> truthy (api_key e) then no_request missing_api_key
      else
        case map_of ALLOWED_qrs_combinations instrument of
          None \<Rightarrow>
            no_request (''Error: Invalid instrument '' @ quoted instrument @
              ''. Valid instruments are: '' @ join '', '' (map fst ALLOWED_qrs_combinations))
        | Some valid \<Rightarrow>
            if version \<notin> set valid
            then no_request (''Error: Invalid version '' @ quoted version @
              '' for instrument '' @ quoted instrument @
              ''. Valid versions are: '' @ join '', '' valid)
            else
              fetch e (''https://api.library.cdisc.org/api/mdr/qrs/instruments/'' @ instrument @
                  ''/versions/'' @ version) 15
                (\<lambda>json_data. capped_reply (json_dumps json_data)))"

text \<open>
  The three operations on controlled-terminology packages: a timeout of 30 seconds, the
  compact separators, and a marker of their own.

  \<^verbatim>\<open>get_package_ct_info\<close> (main.py, lines 962-1073): an exception of the minimization
  is caught by \<^verbatim>\<open>except Exception\<close> (line 1072).
\<close>

definition get_package_ct_info :: "env \<Rightarrow> string \<Rightarrow> run" where
  "get_package_ct_info e package =
     (if \<not> truthy (api_key e) then no_request missing_api_key
      else if package \<notin> set ct_package
      then no_request (''Error: Package '' @ quoted package @
             '' is invalid or not found in known packages.'')
      else
        fetch e (''https://api.library.cdisc.org/api/mdr/ct/packages/'' @ package) 30
          (\<lambda>raw_data.
             case minimize_codelists raw_data of
               Inl msg \<Rightarrow> ''Execution Error: '' @ msg
             | Inr final_data \<Rightarrow> truncated_reply (json_dumps_compact final_data)))"

text \<open>
  \<^verbatim>\<open>get_package_ct_codelist_info\<close> (main.py, lines 1077-1136): the codelist is not tested.
\<close>

definition get_package_ct_codelist_info :: "env \<Rightarrow> string \<Rightarrow> string \<Rightarrow> run" where
  "get_package_ct_codelist_info e package codelist =
     (if \<not> truthy (api_key e) then no_request missing_api_key
      else if package \<notin> set ct_package
      then no_request (''Error: Package '' @ quoted package @
             '' is invalid or not found in known packages.'')
      else
        fetch e (''https://api.library.cdisc.org/api/mdr/ct/packages/'' @ package @
            ''/codelists/'' @ codelist) 30
          (\<lambda>data. truncated_reply (json_dumps_compact data)))"

text \<open>
  \<^verbatim>\<open>get_package_ct_codelist_term_info\<close> (main.py, lines 1139-1202): neither the codelist
  nor the term is tested.
\<close>

definition get_package_ct_codelist_term_info ::
  "env \<Rightarrow> string \<Rightarrow> string \<Rightarrow> string \<Rightarrow> run" where
  "get_package_ct_codelist_term_info e package codelist term_id =
     (if \<not> truthy (api_key e) then no_request missing_api_key
      else if package \<notin> set ct_package
      then no_request (''Error: Package '' @ quoted package @
             '' is invalid or not found in known packages.'')
      else
        fetch e (''https://api.library.cdisc.org/api/mdr/ct/packages/'' @ package @
            ''/codelists/'' @ codelist @ ''/terms/'' @ term_id) 30
          (\<lambda>data. truncated_reply (json_dumps_compact data)))"

subsection \<open>A call of a tool\<close>

text \<open>
  The server offers the eighteen operations as tools; a call names one of them and gives
  its arguments. An argument with the default \<^verbatim>\<open>None\<close> may be left out.
\<close>

datatype call =
    ProductList
  | SdtmigClass string "string option"
  | SdtmigDataset string string
  | SdtmModelClass string "string option"
  | SdtmModelDataset string "string option"
  | SendigClass string "string option"
  | SendigDataset string "string option"
  | CdashigClass string "string option"
  | CdashigDomain string "string option"
  | CdashigScenarios string "string option"
  | CdashModelClass string "string option"
  | CdashModelDomain string "string option"
  | AdamProduct string
  | AdamDatastructure string string
  | Qrs string string
  | PackageCt string
  | PackageCtCodelist string string
  | PackageCtCodelistTerm string string string

fun invoke :: "env \<Rightarrow> call \<Rightarrow> run" where
  "invoke e ProductList = get_CDISC_Library_api_product_list e"
| "invoke e (SdtmigClass version className) = get_sdtmig_class_info e version className"
| "invoke e (SdtmigDataset version dataset) = get_sdtmig_dataset_info e version dataset"
| "invoke e (SdtmModelClass version className) = get_sdtm_model_class_info e version className"
| "invoke e (SdtmModelDataset version dataset) = get_sdtm_model_dataset_info e version dataset"
| "invoke e (SendigClass version className) = get_sendig_class_info e version className"
| "invoke e (SendigDataset version dataset) = get_sendig_dataset_info e version dataset"
| "invoke e (CdashigClass version className) = get_cdashig_class_info e version className"
| "invoke e (CdashigDomain version domains) = get_cdashig_domain_info e version domains"
| "invoke e (CdashigScenarios version scenario) = get_cdashig_scenarios_info e version scenario"
| "invoke e (CdashModelClass version className) = get_cdash_model_class_info e version className"
| "invoke e (CdashModelDomain version domain) = get_cdash_model_domain_info e version domain"
| "invoke e (AdamProduct product) = get_adam_product_info e product"
| "invoke e (AdamDatastructure product datastructure) =
     get_adam_datastructure_info e product datastructure"
| "invoke e (Qrs instrument version) = get_qrs_info e instrument version"
| "invoke e (PackageCt package) = get_package_ct_info e package"
| "invoke e (PackageCtCodelist package codelist) = get_package_ct_codelist_info e package codelist"
| "invoke e (PackageCtCodelistTerm package codelist term_id) =
     get_package_ct_codelist_term_info e package codelist term_id"

subsection \<open>What the operations test before a request\<close>

text \<open>
  The test of an argument that may be left out (lines 86-92 and their copies): \<^verbatim>\<open>None\<close>
  and the empty string pass untested and ask for the listing; any other value must be in
  the list.
\<close>

definition optional_outside :: "string option \<Rightarrow> string list \<Rightarrow> bool" where
  "optional_outside arg allowed =
     (case arg of None \<Rightarrow> False | Some x \<Rightarrow> x \<noteq> [] \<and> x \<notin> set allowed)"

text \<open>
  The test of a parent and a child against a two-level table (lines 818-824 and 893-899).
\<close>

definition nested_outside ::
  "string \<Rightarrow> string \<Rightarrow> (string \<times> string list) list \<Rightarrow> bool" where
  "nested_outside parent child allowed =
     (case map_of allowed parent of None \<Rightarrow> True | Some children \<Rightarrow> child \<notin> set children)"

text \<open>
  The call fails one of the tests the operation makes of its arguments. The version of a
  standard, the scenario, the product of \<^verbatim>\<open>get_adam_product_info\<close>, the codelist and the
  term are tested by no operation.
\<close>

fun rejected :: "call \<Rightarrow> bool" where
  "rejected ProductList = False"
| "rejected (SdtmigClass version className) = optional_outside className sdtmig_classes"
| "rejected (SdtmigDataset version dataset) = optional_outside (Some dataset) sdtmig_datasets"
| "rejected (SdtmModelClass version className) = optional_outside className sdtm_model_classes"
| "rejected (SdtmModelDataset version dataset) = optional_outside dataset sdtm_model_datasets"
| "rejected (SendigClass version className) = optional_outside className sendig_classes"
| "rejected (SendigDataset version dataset) = optional_outside dataset sendig_datasets"
| "rejected (CdashigClass version className) = optional_outside className cdashig_classes"
| "rejected (CdashigDomain version domains) = optional_outside domains cdashig_domains"
| "rejected (CdashigScenarios version scenario) = False"
| "rejected (CdashModelClass version className) = optional_outside className cdash_model_classes"
| "rejected (CdashModelDomain version domain) = optional_outside domain cdash_model_domains"
| "rejected (AdamProduct product) = False"
| "rejected (AdamDatastructure product datastructure) =
     nested_outside product datastructure ALLOWED_adam_datastructure_combinations"
| "rejected (Qrs instrument version) = nested_outside instrument version ALLOWED_qrs_combinations"
| "rejected (PackageCt package) = (package \<notin> set ct_package)"
| "rejected (PackageCtCodelist package codelist) = (package \<notin> set ct_package)"
| "rejected (PackageCtCodelistTerm package codelist term_id) = (package \<notin> set ct_package)"

text \<open>
  What the operations ask of the HTTP client, written out apart from them: the URL that
  the f-strings of an operation build. With an argument that may be left out (lines 85-92
  and their copies) it is the URL of the listing when the argument is omitted or empty,
  else that URL extended by the argument as supplied.
\<close>

definition listing_or_detail :: "string \<Rightarrow> string option \<Rightarrow> string \<Rightarrow> string" where
  "listing_or_detail listing arg ending =
     (case arg of
        None \<Rightarrow> listing
      | Some x \<Rightarrow> if x = [] then listing else listing @ ''/'' @ x @ ending)"

fun request_url :: "call \<Rightarrow> string" where
  "request_url ProductList = ''https://api.library.cdisc.org/api/mdr/products?expand=false''"
| "request_url (SdtmigClass version className) =
     listing_or_detail (''https://api.library.cdisc.org/api/mdr/sdtmig/'' @ version @ ''/classes'')
       className ''/datasets?expand=false''"
| "request_url (SdtmigDataset version dataset) =
     listing_or_detail (''https://api.library.cdisc.org/api/mdr/sdtmig/'' @ version @ ''/datasets'')
       (Some dataset) []"
| "request_url (SdtmModelClass version className) =
     listing_or_detail (''https://api.library.cdisc.org/api/mdr/sdtm/'' @ version @ ''/classes'')
       className []"
| "request_url (SdtmModelDataset version dataset) =
     listing_or_detail (''https://api.library.cdisc.org/api/mdr/sdtm/'' @ version @ ''/datasets'')
       dataset []"
| "request_url (SendigClass version className) =
     listing_or_detail (''https://api.library.cdisc.org/api/mdr/sendig/'' @ version @ ''/classes'')
       className []"
| "request_url (SendigDataset version dataset) =
     listing_or_detail (''https://api.library.cdisc.org/api/mdr/sendig/'' @ version @ ''/datasets'')
       dataset []"
| "request_url (CdashigClass version className) =
     listing_or_detail (''https://api.library.cdisc.org/api/mdr/cdashig/'' @ version @ ''/classes'')
       className ''/domains''"
| "request_url (CdashigDomain version domains) =
     listing_or_detail (''https://api.library.cdisc.org/api/mdr/cdashig/'' @ version @ ''/domains'')
       domains []"
| "request_url (CdashigScenarios version scenario) =
     listing_or_detail (''https://api.library.cdisc.org/api/mdr/cdashig/'' @ version @ ''/scenarios'')
       scenario []"
| "request_url (CdashModelClass version className) =
     listing_or_detail (''https://api.library.cdisc.org/api/mdr/cdash/'' @ version @ ''/classes'')
       className []"
| "request_url (CdashModelDomain version domain) =
     listing_or_detail (''https://api.library.cdisc.org/api/mdr/cdash/'' @ version @ ''/domains'')
       domain []"
| "request_url (AdamProduct product) = ''https://api.library.cdisc.org/api/mdr/adam/'' @ product"
| "request_url (AdamDatastructure product datastructure) =
     ''https://api.library.cdisc.org/api/mdr/adam/'' @ product @ ''/datastructures/'' @ datastructure"
| "request_url (Qrs instrument version) =
     ''https://api.library.cdisc.org/api/mdr/qrs/instruments/'' @ instrument @ ''/versions/'' @ version"
| "request_url (PackageCt package) = ''https://api.library.cdisc.org/api/mdr/ct/packages/'' @ package"
| "request_url (PackageCtCodelist package codelist) =
     ''https://api.library.cdisc.org/api/mdr/ct/packages/'' @ package @ ''/codelists/'' @ codelist"
| "request_url (PackageCtCodelistTerm package codelist term_id) =
     ''https://api.library.cdisc.org/api/mdr/ct/packages/'' @ package @ ''/codelists/'' @ codelist @
     ''/terms/'' @ term_id"

text \<open>The \<^verbatim>\<open>timeout\<close> of the request, in seconds.\<close>

fun request_timeout :: "call \<Rightarrow> nat" where
  "request_timeout (PackageCt package) = 30"
| "request_timeout (PackageCtCodelist package codelist) = 30"
| "request_timeout (PackageCtCodelistTerm package codelist term_id) = 30"
| "request_timeout c = 15"

text \<open>
  What the operations return when a test fails, written out apart from them: the message
  for an argument outside its list (line 90 and its copies), for a package outside
  \<^verbatim>\<open>ct_package\<close> (lines 1020, 1105, 1171), and for a parent or a child outside a
  two-level table (lines 818-824 and 893-899).
\<close>

definition invalid_argument :: "string \<Rightarrow> string option \<Rightarrow> string" where
  "invalid_argument name arg =
     ''Error: '' @ name @ '' is invalid, got '' @ quoted (case arg of None \<Rightarrow> [] | Some x \<Rightarrow> x)"

definition invalid_package :: "string \<Rightarrow> string" where
  "invalid_package package =
     ''Error: Package '' @ quoted package @ '' is invalid or not found in known packages.''"

definition invalid_combination ::
  "string \<Rightarrow> string \<Rightarrow> string \<Rightarrow> string \<Rightarrow> (string \<times> string list) list \<Rightarrow> string" where
  "invalid_combination parent_name child_name parent child allowed =
     (case map_of allowed parent of
        None \<Rightarrow>
          ''Error: Invalid '' @ parent_name @ '' '' @ quoted parent @ ''. Valid '' @ parent_name @
          ''s are: '' @ join '', '' (map fst allowed)
      | Some children \<Rightarrow>
          ''Error: Invalid '' @ child_name @ '' '' @ quoted child @ '' for '' @ parent_name @ '' '' @
          quoted parent @ ''. Valid '' @ child_name @ ''s are: '' @ join '', '' children)"

fun rejection_message :: "call \<Rightarrow> string" where
  "rejection_message (SdtmigClass version className) = invalid_argument ''className'' className"
| "rejection_message (SdtmigDataset version dataset) = invalid_argument ''dataset'' (Some dataset)"
| "rejection_message (SdtmModelClass version className) = invalid_argument ''className'' className"
| "rejection_message (SdtmModelDataset version dataset) = invalid_argument ''dataset'' dataset"
| "rejection_message (SendigClass version className) = invalid_argument ''className'' className"
| "rejection_message (SendigDataset version dataset) = invalid_argument ''dataset'' dataset"
| "rejection_message (CdashigClass version className) = invalid_argument ''className'' className"
| "rejection_message (CdashigDomain version domains) = invalid_argument ''domains'' domains"
| "rejection_message (CdashModelClass version className) = invalid_argument ''className'' className"
| "rejection_message (CdashModelDomain version domain) = invalid_argument ''domain'' domain"
| "rejection_message (AdamDatastructure product datastructure) =
     invalid_combination ''product'' ''datastructure'' product datastructure
       ALLOWED_adam_datastructure_combinations"
| "rejection_message (Qrs instrument version) =
     invalid_combination ''instrument'' ''version'' instrument version ALLOWED_qrs_combinations"
| "rejection_message (PackageCt package) = invalid_package package"
| "rejection_message (PackageCtCodelist package codelist) = invalid_package package"
| "rejection_message (PackageCtCodelistTerm package codelist term_id) = invalid_package package"
| "rejection_message c = []"

text \<open>
  The versions the docstring of \<^verbatim>\<open>get_sdtmig_class_info\<close> gives as all available ones
  (line 74); the code has no list of versions.
\<close>

definition sdtmig_versions :: "string list" where
  "sdtmig_versions =
     [''3-1-2'', ''3-1-3'', ''3-2'', ''3-3'', ''3-4'', ''ap-1-0'', ''md-1-0'', ''md-1-1'']"

text \<open>A network that gives every request the same outcome.\<close>

definition answer :: "http_outcome \<Rightarrow> request \<Rightarrow> http_outcome" where
  "answer outcome req = outcome"

section \<open>Properties of the shapers\<close>

subsection \<open>Dict assignment and lookup\<close>

lemma map_of_dict_set:
  "map_of (dict_set kvs k v) k' = (if k' = k then Some v else map_of kvs k')"
  by (induction kvs) auto

lemma keys_dict_set:
  "map fst (dict_set kvs k v) = (if dict_has kvs k then map fst kvs else map fst kvs @ [k])"
  by (induction kvs) (auto simp: dict_has_def)

lemma dict_has_dict_set [simp]: "dict_has (dict_set kvs k v) k"
  by (simp add: dict_has_def map_of_dict_set)

lemma dict_set_twice [simp]: "dict_set (dict_set kvs k v) k v = dict_set kvs k v"
  by (induction kvs) auto

lemma map_of_map_value:
  "map_of (map (\<lambda>(k, v). (k, f k v)) kvs) k' = map_option (f k') (map_of kvs k')"
  by (induction kvs) auto

lemma dict_has_map_value [simp]:
  "dict_has (map (\<lambda>(k, v). (k, f k v)) kvs) k' = dict_has kvs k'"
  by (simp add: dict_has_def map_of_map_value)

lemma dict_set_map_value:
  "f k v = v \<Longrightarrow>
   dict_set (map (\<lambda>(k, v). (k, f k v)) kvs) k v = map (\<lambda>(k, v). (k, f k v)) (dict_set kvs k v)"
  by (induction kvs) auto

subsection \<open>Subtree-clear\<close>

lemma clear_analysis_variables_twice:
  "clear_analysis_variables (clear_analysis_variables kvs) = clear_analysis_variables kvs"
  by (simp add: clear_analysis_variables_def)

lemma clear_analysis_variables_map:
  "clear_analysis_variables (map (\<lambda>(k, v). (k, remove_all_analysis_variables v)) kvs) =
   map (\<lambda>(k, v). (k, remove_all_analysis_variables v)) (clear_analysis_variables kvs)"
  using dict_set_map_value [of "\<lambda>k. remove_all_analysis_variables" _ "JList []" kvs]
  by (simp add: clear_analysis_variables_def)

lemma map_of_clear_analysis_variables:
  "map_of (clear_analysis_variables kvs) k =
     (if k = ''analysisVariables'' \<and> dict_has kvs k then Some (JList []) else map_of kvs k)"
  by (simp add: clear_analysis_variables_def map_of_dict_set dict_has_def)

lemma keys_clear_analysis_variables:
  "map fst (clear_analysis_variables kvs) = map fst kvs"
  by (simp add: clear_analysis_variables_def keys_dict_set)

lemma remove_all_analysis_variables_idem:
  "remove_all_analysis_variables (remove_all_analysis_variables obj) =
   remove_all_analysis_variables obj"
proof (induction obj rule: remove_all_analysis_variables.induct)
  case (1 kvs)
  let ?F = "\<lambda>(k, v). (k, remove_all_analysis_variables v)"
  have "map ?F (map ?F (clear_analysis_variables kvs)) = map ?F (clear_analysis_variables kvs)"
    using 1 by (auto simp: map_idI)
  then show ?case
    by (simp add: clear_analysis_variables_map clear_analysis_variables_twice)
next
  case (2 xs)
  then show ?case by (simp add: map_idI)
qed simp_all

text \<open>
  Every \<^verbatim>\<open>'analysisVariables'\<close> field of the tree, at any depth, is the empty list
  (the field of a dict is what a lookup of the key gives).
\<close>

fun cleared :: "json \<Rightarrow> bool" where
  "cleared (JDict kvs) =
     ((case map_of kvs ''analysisVariables'' of None \<Rightarrow> True | Some v \<Rightarrow> v = JList []) \<and>
      list_all (\<lambda>(k, v). cleared v) kvs)"
| "cleared (JList xs) = list_all cleared xs"
| "cleared _ = True"

lemma cleared_remove_all_analysis_variables: "cleared (remove_all_analysis_variables obj)"
proof (induction obj rule: remove_all_analysis_variables.induct)
  case (1 kvs)
  then show ?case
    by (auto simp: map_of_map_value [of "\<lambda>k. remove_all_analysis_variables"]
        map_of_clear_analysis_variables list_all_iff dict_has_def split: option.splits)
next
  case (2 xs)
  then show ?case by (simp add: list_all_iff)
qed simp_all

lemma dict_has_mem: "(k, v) \<in> set kvs \<Longrightarrow> dict_has kvs k"
  by (force simp: dict_has_def map_of_eq_None_iff)

lemma map_value_id:
  "(\<And>k v. (k, v) \<in> set kvs \<Longrightarrow> f k v = v) \<Longrightarrow> map (\<lambda>(k, v). (k, f k v)) kvs = kvs"
  by (induction kvs) auto

subsection \<open>Trees without a given key\<close>

text \<open>The key occurs in the tree: some dict of the tree, at any depth, has it.\<close>

fun occurs :: "string \<Rightarrow> json \<Rightarrow> bool" where
  "occurs key (JDict kvs) = (dict_has kvs key \<or> list_ex (\<lambda>(k, v). occurs key v) kvs)"
| "occurs key (JList xs) = list_ex (occurs key) xs"
| "occurs key _ = False"

lemma clear_analysis_variables_absent:
  "\<not> dict_has kvs ''analysisVariables'' \<Longrightarrow> clear_analysis_variables kvs = kvs"
  by (simp add: clear_analysis_variables_def)

lemma remove_all_analysis_variables_unchanged:
  "\<not> occurs ''analysisVariables'' obj \<Longrightarrow> remove_all_analysis_variables obj = obj"
proof (induction obj rule: remove_all_analysis_variables.induct)
  case (1 kvs)
  then have nokey: "clear_analysis_variables kvs = kvs"
    by (simp add: clear_analysis_variables_absent)
  have "map (\<lambda>(k, v). (k, remove_all_analysis_variables v)) kvs = kvs"
    using 1 nokey by (intro map_value_id) (auto simp: list_ex_iff)
  with nokey show ?case by simp
next
  case (2 xs)
  then show ?case by (simp add: list_ex_iff map_idI)
qed simp_all

lemma prune_links_no_links:
  "\<not> dict_has kvs ''_links'' \<Longrightarrow> prune_links kvs parent_key = kvs"
  by (simp add: prune_links_def dict_has_def)

lemma prune_links_other_parent:
  "parent_key \<noteq> Some ''analysisVariables'' \<Longrightarrow> prune_links kvs parent_key = kvs"
  by (simp add: prune_links_def)

lemma remove_links_parent_refs_no_links:
  "\<not> occurs ''_links'' obj \<Longrightarrow> remove_links_parent_refs obj parent_key = obj"
proof (induction obj parent_key rule: remove_links_parent_refs.induct)
  case (1 kvs parent_key)
  then have nokey: "prune_links kvs parent_key = kvs"
    by (simp add: prune_links_no_links)
  have "map (\<lambda>(k, v). (k, remove_links_parent_refs v (Some k))) kvs = kvs"
    using 1 nokey by (intro map_value_id) (auto simp: list_ex_iff)
  with nokey show ?case by simp
next
  case (2 xs parent_key)
  then show ?case by (simp add: list_ex_iff map_idI)
qed simp_all

lemma remove_links_parent_refs_no_parent:
  "\<not> occurs ''analysisVariables'' obj \<Longrightarrow> parent_key \<noteq> Some ''analysisVariables'' \<Longrightarrow>
   remove_links_parent_refs obj parent_key = obj"
proof (induction obj parent_key rule: remove_links_parent_refs.induct)
  case (1 kvs parent_key)
  then have nokey: "prune_links kvs parent_key = kvs"
    by (simp add: prune_links_other_parent)
  have "map (\<lambda>(k, v). (k, remove_links_parent_refs v (Some k))) kvs = kvs"
  proof (intro map_value_id)
    fix k v assume kv: "(k, v) \<in> set kvs"
    with 1(2) have "\<not> occurs ''analysisVariables'' v" and "k \<noteq> ''analysisVariables''"
      by (auto simp: list_ex_iff dest: dict_has_mem)
    with 1(1) [of "(k, v)" k v] kv nokey show "remove_links_parent_refs v (Some k) = v"
      by simp
  qed
  with nokey show ?case by simp
next
  case (2 xs parent_key)
  then show ?case by (simp add: list_ex_iff map_idI)
qed simp_all

subsection \<open>The nodes of a tree and their field names\<close>

text \<open>
  A node of a tree is named by the path to it from the root: the key taken in a dict, the
  index taken in a list. The field names of a node are the keys of a dict, in their order;
  any other node has none.
\<close>

datatype step = Key string | Index nat

fun node_at :: "json \<Rightarrow> step list \<Rightarrow> json option" where
  "node_at obj [] = Some obj"
| "node_at (JDict kvs) (Key k # path) =
     (case map_of kvs k of None \<Rightarrow> None | Some v \<Rightarrow> node_at v path)"
| "node_at (JList xs) (Index i # path) =
     (if i < length xs then node_at (xs ! i) path else None)"
| "node_at _ (_ # path) = None"

fun field_names :: "json \<Rightarrow> string list" where
  "field_names (JDict kvs) = map fst kvs"
| "field_names _ = []"

text \<open>
  \<open>within out inp\<close>: every node of \<open>out\<close> lies on a path that leads to a node of
  \<open>inp\<close> too, and its field names are field names of that node, in the same order.
\<close>

definition within :: "json \<Rightarrow> json \<Rightarrow> bool" where
  "within out inp =
     (\<forall>path n'. node_at out path = Some n' \<longrightarrow>
        (\<exists>n. node_at inp path = Some n \<and> subseq (field_names n') (field_names n)))"

lemma within_refl: "within j j"
  by (simp add: within_def)

lemma within_trans: "within a b \<Longrightarrow> within b c \<Longrightarrow> within a c"
  unfolding within_def by (meson subseq_order.trans)

lemma within_dict:
  assumes keys: "subseq (map fst kvs') (map fst kvs)"
    and vals: "\<And>k v'. map_of kvs' k = Some v' \<Longrightarrow> \<exists>v. map_of kvs k = Some v \<and> within v' v"
  shows "within (JDict kvs') (JDict kvs)"
  unfolding within_def
proof (intro allI impI)
  fix path n' assume n': "node_at (JDict kvs') path = Some n'"
  show "\<exists>n. node_at (JDict kvs) path = Some n \<and> subseq (field_names n') (field_names n)"
  proof (cases path)
    case Nil
    with n' keys show ?thesis by auto
  next
    case (Cons s rest)
    show ?thesis
    proof (cases s)
      case (Key k)
      with n' Cons obtain v' where v': "map_of kvs' k = Some v'" "node_at v' rest = Some n'"
        by (auto split: option.splits)
      from vals [OF v'(1)] obtain v where v: "map_of kvs k = Some v" "within v' v"
        by blast
      with v'(2) show ?thesis
        using Cons Key by (auto simp: within_def)
    next
      case (Index i)
      with n' Cons show ?thesis by simp
    qed
  qed
qed

lemma within_list:
  assumes len: "length xs' \<le> length xs"
    and items: "\<And>i. i < length xs' \<Longrightarrow> within (xs' ! i) (xs ! i)"
  shows "within (JList xs') (JList xs)"
  unfolding within_def
proof (intro allI impI)
  fix path n' assume n': "node_at (JList xs') path = Some n'"
  show "\<exists>n. node_at (JList xs) path = Some n \<and> subseq (field_names n') (field_names n)"
  proof (cases path)
    case Nil
    with n' show ?thesis by auto
  next
    case (Cons s rest)
    show ?thesis
    proof (cases s)
      case (Key k)
      with n' Cons show ?thesis by simp
    next
      case (Index i)
      with n' Cons have i: "i < length xs'" "node_at (xs' ! i) rest = Some n'"
        by (auto split: if_splits)
      with items [of i] len show ?thesis
        using Cons Index by (auto simp: within_def)
    qed
  qed
qed

lemma within_empty_list: "within (JList []) j"
  unfolding within_def
proof (intro allI impI)
  fix path n' assume "node_at (JList []) path = Some n'"
  then have "path = [] \<and> n' = JList []"
    by (cases path; cases "hd path") (auto split: step.splits)
  then show "\<exists>n. node_at j path = Some n \<and> subseq (field_names n') (field_names n)"
    by simp
qed

lemma within_empty_dict: "within (JDict []) (JDict kvs)"
  by (rule within_dict) simp_all

lemma within_remove_all_analysis_variables: "within (remove_all_analysis_variables obj) obj"
proof (induction obj rule: remove_all_analysis_variables.induct)
  case (1 kvs)
  let ?f = "\<lambda>k::string. remove_all_analysis_variables"
  show ?case
    unfolding remove_all_analysis_variables.simps
  proof (rule within_dict)
    show "subseq (map fst (map (\<lambda>(k, v). (k, remove_all_analysis_variables v))
            (clear_analysis_variables kvs))) (map fst kvs)"
      by (simp add: keys_clear_analysis_variables case_prod_unfold comp_def)
  next
    fix k v' assume "map_of (map (\<lambda>(k, v). (k, remove_all_analysis_variables v))
            (clear_analysis_variables kvs)) k = Some v'"
    then obtain v0 where v0: "map_of (clear_analysis_variables kvs) k = Some v0"
        "v' = remove_all_analysis_variables v0"
      by (auto simp: map_of_map_value [of ?f])
    then have IH: "within v' v0"
      using 1 [of "(k, v0)" k v0] by (auto dest: map_of_SomeD)
    show "\<exists>v. map_of kvs k = Some v \<and> within v' v"
    proof (cases "k = ''analysisVariables'' \<and> dict_has kvs k")
      case True
      with v0 have "v' = JList []"
        by (auto simp: map_of_clear_analysis_variables)
      with True show ?thesis
        by (auto simp: dict_has_def within_empty_list)
    next
      case False
      with v0 have "map_of kvs k = Some v0"
        by (simp add: map_of_clear_analysis_variables split: if_splits)
      with IH show ?thesis by simp
    qed
  qed
next
  case (2 xs)
  then show ?case
    by (auto intro!: within_list)
qed (simp_all add: within_refl)

subsection \<open>Link-prune\<close>

lemma keys_prune_links: "map fst (prune_links kvs parent_key) = map fst kvs"
  by (auto simp: prune_links_def keys_dict_set dict_has_def split: option.splits json.splits)

lemma map_of_prune_links:
  "map_of (prune_links kvs parent_key) k =
     (if parent_key = Some ''analysisVariables'' \<and> k = ''_links'' then
        (case map_of kvs ''_links'' of
           Some (JDict links) \<Rightarrow>
             Some (JDict (case map_of links ''self'' of Some s \<Rightarrow> [(''self'', s)] | None \<Rightarrow> []))
         | other \<Rightarrow> other)
      else map_of kvs k)"
  by (auto simp: prune_links_def map_of_dict_set split: option.splits json.splits)

lemma within_self_only:
  "within (JDict (case map_of links ''self'' of Some s \<Rightarrow> [(''self'', s)] | None \<Rightarrow> []))
     (JDict links)"
proof (cases "map_of links ''self''")
  case None
  then show ?thesis by (simp add: within_empty_dict)
next
  case (Some s)
  have "within (JDict [(''self'', s)]) (JDict links)"
  proof (rule within_dict)
    from Some have "''self'' \<in> set (map fst links)"
      by (auto dest!: map_of_SomeD intro: rev_image_eqI)
    then show "subseq (map fst [(''self'', s)]) (map fst links)"
      by (simp add: subseq_singleton_left)
  next
    fix k v' assume "map_of [(''self'', s)] k = Some v'"
    with Some show "\<exists>v. map_of links k = Some v \<and> within v' v"
      by (auto simp: within_refl split: if_splits)
  qed
  with Some show ?thesis by simp
qed

lemma within_prune_links:
  assumes "map_of (prune_links kvs parent_key) k = Some v0"
  shows "\<exists>v. map_of kvs k = Some v \<and> within v0 v"
proof (cases "parent_key = Some ''analysisVariables'' \<and> k = ''_links''")
  case False
  with assms show ?thesis
    by (auto simp: map_of_prune_links within_refl)
next
  case True
  show ?thesis
  proof (cases "map_of kvs ''_links''")
    case None
    with assms True show ?thesis by (simp add: map_of_prune_links)
  next
    case (Some l)
    show ?thesis
    proof (cases l)
      case (JDict links)
      with assms True Some show ?thesis
        using within_self_only [of links] by (auto simp: map_of_prune_links)
    qed (use assms True Some in \<open>auto simp: map_of_prune_links within_refl\<close>)
  qed
qed

lemma within_remove_links_parent_refs: "within (remove_links_parent_refs obj parent_key) obj"
proof (induction obj parent_key rule: remove_links_parent_refs.induct)
  case (1 kvs parent_key)
  let ?f = "\<lambda>k v. remove_links_parent_refs v (Some k)"
  show ?case
    unfolding remove_links_parent_refs.simps
  proof (rule within_dict)
    show "subseq (map fst (map (\<lambda>(k, v). (k, remove_links_parent_refs v (Some k)))
            (prune_links kvs parent_key))) (map fst kvs)"
      by (simp add: keys_prune_links case_prod_unfold comp_def)
  next
    fix k v' assume "map_of (map (\<lambda>(k, v). (k, remove_links_parent_refs v (Some k)))
            (prune_links kvs parent_key)) k = Some v'"
    then obtain v0 where v0: "map_of (prune_links kvs parent_key) k = Some v0"
        "v' = remove_links_parent_refs v0 (Some k)"
      by (auto simp: map_of_map_value [of ?f])
    then have "within v' v0"
      using 1 [of "(k, v0)" k v0] by (auto dest: map_of_SomeD)
    moreover from v0(1) obtain v where "map_of kvs k = Some v" "within v0 v"
      using within_prune_links by blast
    ultimately show "\<exists>v. map_of kvs k = Some v \<and> within v' v"
      by (auto intro: within_trans)
  qed
next
  case (2 xs parent_key)
  then show ?case
    by (auto intro!: within_list)
qed (simp_all add: within_refl)

subsection \<open>Field-whitelist-flatten\<close>

lemma for_each_results:
  "for_each f xs = Inr ys \<Longrightarrow> y \<in> set ys \<Longrightarrow> \<exists>x. f x = Inr y"
  by (induction xs arbitrary: ys) (auto split: sum.splits)

lemma clean_term_fields:
  "clean_term t = Inr t' \<Longrightarrow> field_names t' = [''conceptId'', ''submissionValue'']"
  by (auto simp: clean_term_def split: sum.splits)

lemma clean_terms_fields:
  assumes "clean_terms cl = Inr ts" and "t \<in> set ts"
  shows "field_names t = [''conceptId'', ''submissionValue'']"
proof -
  from assms obtain items where "for_each clean_term items = Inr ts"
    by (auto simp: clean_terms_def split: json.splits option.splits sum.splits)
  with assms(2) obtain x where "clean_term x = Inr t"
    using for_each_results [of clean_term items ts t] by auto
  then show ?thesis by (rule clean_term_fields)
qed

lemma clean_codelist_shape:
  assumes "clean_codelist cl = Inr cl'"
  shows "\<exists>c s ts. cl' = JDict [(''conceptId'', c), (''submissionValue'', s), (''terms'', JList ts)] \<and>
           (\<forall>t \<in> set ts. field_names t = [''conceptId'', ''submissionValue''])"
proof -
  from assms obtain c s ts where
    "cl' = JDict [(''conceptId'', c), (''submissionValue'', s), (''terms'', JList ts)]"
    and "clean_terms cl = Inr ts"
    by (auto simp: clean_codelist_def split: sum.splits)
  then show ?thesis
    using clean_terms_fields by blast
qed

lemma minimize_codelists_shape:
  assumes "minimize_codelists raw_data = Inr final_data"
  shows "\<exists>cls. final_data = JDict [(''codelists'', JList cls)] \<and>
     (\<forall>cl \<in> set cls. \<exists>c s ts.
         cl = JDict [(''conceptId'', c), (''submissionValue'', s), (''terms'', JList ts)] \<and>
         (\<forall>t \<in> set ts. field_names t = [''conceptId'', ''submissionValue'']))"
proof -
  from assms obtain items cls where fin: "final_data = JDict [(''codelists'', JList cls)]"
    and each: "for_each clean_codelist items = Inr cls"
    by (auto simp: minimize_codelists_def split: sum.splits)
  have "\<exists>c s ts.
           cl = JDict [(''conceptId'', c), (''submissionValue'', s), (''terms'', JList ts)] \<and>
           (\<forall>t \<in> set ts. field_names t = [''conceptId'', ''submissionValue''])"
    if "cl \<in> set cls" for cl
  proof -
    from each that obtain x where "clean_codelist x = Inr cl"
      using for_each_results [of clean_codelist items cls cl] by auto
    then show ?thesis by (rule clean_codelist_shape)
  qed
  with fin show ?thesis by blast
qed

lemma minimize_codelists_fields:
  assumes "minimize_codelists raw_data = Inr final_data"
  shows "field_names final_data = [''codelists'']"
    and "node_at final_data [Key ''codelists'', Index i] = Some cl \<Longrightarrow>
         field_names cl = [''conceptId'', ''submissionValue'', ''terms'']"
    and "node_at final_data [Key ''codelists'', Index i, Key ''terms'', Index j] = Some t \<Longrightarrow>
         field_names t = [''conceptId'', ''submissionValue'']"
proof -
  from minimize_codelists_shape [OF assms]
  obtain cls where fin: "final_data = JDict [(''codelists'', JList cls)]"
    and cls: "\<forall>cl \<in> set cls. \<exists>c s ts.
           cl = JDict [(''conceptId'', c), (''submissionValue'', s), (''terms'', JList ts)] \<and>
           (\<forall>t \<in> set ts. field_names t = [''conceptId'', ''submissionValue''])"
    by blast
  show "field_names final_data = [''codelists'']"
    using fin by simp
  show "field_names cl = [''conceptId'', ''submissionValue'', ''terms'']"
    if "node_at final_data [Key ''codelists'', Index i] = Some cl"
  proof -
    from that fin have "cl \<in> set cls"
      by (auto split: if_splits)
    with cls show ?thesis by auto
  qed
  show "field_names t = [''conceptId'', ''submissionValue'']"
    if "node_at final_data [Key ''codelists'', Index i, Key ''terms'', Index j] = Some t"
  proof -
    from that fin have i: "cls ! i \<in> set cls" and
      t: "node_at (cls ! i) [Key ''terms'', Index j] = Some t"
      by (auto split: if_splits)
    from cls i obtain c s ts where
      "cls ! i = JDict [(''conceptId'', c), (''submissionValue'', s), (''terms'', JList ts)]"
      and ts: "\<forall>t \<in> set ts. field_names t = [''conceptId'', ''submissionValue'']"
      by blast
    with t have "t \<in> set ts"
      by (auto split: if_splits)
    with ts show ?thesis by simp
  qed
qed

lemma minimize_codelists_absent:
  "\<not> dict_has kvs ''codelists'' \<Longrightarrow>
   minimize_codelists (JDict kvs) = Inr (JDict [(''codelists'', JList [])])"
  by (simp add: minimize_codelists_def dict_has_def)

lemma node_at_links:

  "node_at (remove_links_parent_refs (JDict kvs) parent_key) [Key ''_links''] =
     map_option (\<lambda>v. remove_links_parent_refs v (Some ''_links''))
       (map_of (prune_links kvs parent_key) ''_links'')"
  by (simp add: map_of_map_value [of "\<lambda>k v. remove_links_parent_refs v (Some k)"]
      split: option.splits)

lemma self_only_walk:
  "remove_links_parent_refs
     (JDict (case map_of links ''self'' of Some s \<Rightarrow> [(''self'', s)] | None \<Rightarrow> []))
     (Some ''_links'') =
   JDict (case map_of links ''self'' of
            Some s \<Rightarrow> [(''self'', remove_links_parent_refs s (Some ''self''))]
          | None \<Rightarrow> [])"
  by (simp add: prune_links_other_parent split: option.splits)

lemma for_each_nth:
  "for_each f xs = Inr ys \<Longrightarrow> i < length ys \<Longrightarrow> i < length xs \<and> f (xs ! i) = Inr (ys ! i)"
proof (induction xs arbitrary: ys i)
  case Nil
  then show ?case by simp
next
  case (Cons x xs)
  then obtain y ys' where ys: "ys = y # ys'" "f x = Inr y" "for_each f xs = Inr ys'"
    by (auto split: sum.splits)
  show ?case
  proof (cases i)
    case 0
    with ys show ?thesis by simp
  next
    case (Suc k)
    with Cons.prems ys have "k < length ys'" by simp
    from Cons.IH [OF ys(3) this] show ?thesis
      using Suc ys by simp
  qed
qed

lemma py_iter_items:
  assumes "py_iter v = Inr items" and "for_each f items = Inr ys" and "i < length ys"
    and "\<And>s. f (JStr s) \<noteq> Inr (ys ! i)"
  shows "\<exists>xs. v = JList xs \<and> i < length xs \<and> f (xs ! i) = Inr (ys ! i)"
proof -
  from for_each_nth [OF assms(2,3)] have i: "i < length items" "f (items ! i) = Inr (ys ! i)"
    by simp_all
  show ?thesis
  proof (cases v)
    case (JList xs)
    with assms(1) i show ?thesis by simp
  next
    case (JDict kvs)
    with assms(1) i have "f (JStr (fst (kvs ! i))) = Inr (ys ! i)"
      by (auto simp: case_prod_unfold)
    with assms(4) show ?thesis by blast
  next
    case (JStr s)
    with assms(1) i have "f (JStr [s ! i]) = Inr (ys ! i)"
      by auto
    with assms(4) show ?thesis by blast
  qed (use assms(1) in simp_all)
qed

lemma clean_term_JStr: "clean_term (JStr s) \<noteq> Inr y"
  by (simp add: clean_term_def)

lemma clean_codelist_JStr: "clean_codelist (JStr s) \<noteq> Inr y"
  by (simp add: clean_codelist_def)

lemma clean_term_values:
  assumes "clean_term t = Inr t'"
  shows "field_names t' = [''conceptId'', ''submissionValue''] \<and>
    node_at t' [Key ''conceptId''] =
      Some (case node_at t [Key ''conceptId''] of Some v \<Rightarrow> v | None \<Rightarrow> JNull) \<and>
    node_at t' [Key ''submissionValue''] =
      Some (case node_at t [Key ''submissionValue''] of Some v \<Rightarrow> v | None \<Rightarrow> JNull)"
proof (cases t)
  case (JDict kvs)
  with assms show ?thesis
    by (auto simp: clean_term_def split: option.splits)
qed (use assms in \<open>simp_all add: clean_term_def\<close>)

lemma clean_codelist_values:
  assumes "clean_codelist cl = Inr cl'"
  shows "field_names cl' = [''conceptId'', ''submissionValue'', ''terms''] \<and>
    node_at cl' [Key ''conceptId''] =
      Some (case node_at cl [Key ''conceptId''] of Some v \<Rightarrow> v | None \<Rightarrow> JNull) \<and>
    node_at cl' [Key ''submissionValue''] =
      Some (case node_at cl [Key ''submissionValue''] of Some v \<Rightarrow> v | None \<Rightarrow> JNull) \<and>
    (node_at cl [Key ''terms''] = None \<longrightarrow> node_at cl' [Key ''terms''] = Some (JList []))"
proof (cases cl)
  case (JDict kvs)
  with assms show ?thesis
    by (auto simp: clean_codelist_def clean_terms_def split: option.splits sum.splits)
qed (use assms in \<open>simp_all add: clean_codelist_def\<close>)

lemma clean_codelist_term:
  assumes "clean_codelist cl = Inr cl'"
    and "node_at cl' [Key ''terms'', Index j] = Some t'"
  shows "\<exists>t. node_at cl [Key ''terms'', Index j] = Some t \<and> clean_term t = Inr t'"
proof -
  from assms(1) obtain kvs where cl: "cl = JDict kvs"
    by (cases cl) (simp_all add: clean_codelist_def)
  from assms(1) cl obtain c s ts where
    cl': "cl' = JDict [(''conceptId'', c), (''submissionValue'', s), (''terms'', JList ts)]"
    and ts: "clean_terms cl = Inr ts"
    by (auto simp: clean_codelist_def split: sum.splits)
  from assms(2) cl' have j: "j < length ts" "t' = ts ! j"
    by (auto split: if_splits)
  show ?thesis
  proof (cases "map_of kvs ''terms''")
    case None
    with ts cl j show ?thesis by (simp add: clean_terms_def)
  next
    case (Some v)
    with ts cl obtain items where it: "py_iter v = Inr items" "for_each clean_term items = Inr ts"
      by (auto simp: clean_terms_def split: sum.splits)
    from py_iter_items [OF it j(1)] clean_term_JStr
    obtain xs where "v = JList xs" "j < length xs" "clean_term (xs ! j) = Inr (ts ! j)"
      by blast
    with Some cl j show ?thesis by simp
  qed
qed

lemma minimize_codelists_codelist:
  assumes "minimize_codelists raw_data = Inr final_data"
    and "node_at final_data [Key ''codelists'', Index i] = Some cl'"
  shows "\<exists>cl. node_at raw_data [Key ''codelists'', Index i] = Some cl \<and> clean_codelist cl = Inr cl'"
proof -
  from assms(1) obtain kvs where raw: "raw_data = JDict kvs"
    by (cases raw_data) (simp_all add: minimize_codelists_def)
  from assms(1) raw obtain items cls where
    fin: "final_data = JDict [(''codelists'', JList cls)]"
    and it: "py_iter (case map_of kvs ''codelists'' of Some v \<Rightarrow> v | None \<Rightarrow> JList []) = Inr items"
      "for_each clean_codelist items = Inr cls"
    by (auto simp: minimize_codelists_def split: sum.splits)
  from assms(2) fin have i: "i < length cls" "cl' = cls ! i"
    by (auto split: if_splits)
  from py_iter_items [OF it i(1)] clean_codelist_JStr
  obtain xs where xs: "(case map_of kvs ''codelists'' of Some v \<Rightarrow> v | None \<Rightarrow> JList []) = JList xs"
    "i < length xs" "clean_codelist (xs ! i) = Inr (cls ! i)"
    by blast
  then have "map_of kvs ''codelists'' = Some (JList xs)"
    by (auto split: option.splits)
  with xs raw i show ?thesis by simp
qed

lemma node_at_append:
  "node_at obj (p @ q) = (case node_at obj p of None \<Rightarrow> None | Some n \<Rightarrow> node_at n q)"
  by (induction obj p rule: node_at.induct) (auto split: option.splits)

lemma node_at_codelist_term:
  "node_at obj [Key a, Index i, Key b, Index j] =
     (case node_at obj [Key a, Index i] of None \<Rightarrow> None | Some n \<Rightarrow> node_at n [Key b, Index j])"
  using node_at_append [of obj "[Key a, Index i]" "[Key b, Index j]"] by simp

section \<open>Properties of the operations\<close>

lemmas operation_defs =
  get_CDISC_Library_api_product_list_def get_sdtmig_class_info_def get_sdtmig_dataset_info_def
  get_sdtm_model_class_info_def get_sdtm_model_dataset_info_def get_sendig_class_info_def
  get_sendig_dataset_info_def get_cdashig_class_info_def get_cdashig_domain_info_def
  get_cdashig_scenarios_info_def get_cdash_model_class_info_def get_cdash_model_domain_info_def
  get_adam_product_info_def get_adam_datastructure_info_def get_qrs_info_def
  get_package_ct_info_def get_package_ct_codelist_info_def get_package_ct_codelist_term_info_def

lemma requests_fetch [simp]:
  "requests (fetch e u t on_success) = [\<lparr>url = u, headers = hdr (api_key e), timeout = t\<rparr>]"
  by (simp add: fetch_def Let_def)

lemma requests_fetch_sliced [simp]:
  "requests (fetch_sliced e u) = [\<lparr>url = u, headers = hdr (api_key e), timeout = 15\<rparr>]"
  by (simp add: fetch_sliced_def)

lemma no_request_simps [simp]:
  "requests (no_request s) = []" "returned (no_request s) = s"
  by (simp_all add: no_request_def)

lemma rejected_no_request:
  "rejected c \<Longrightarrow> requests (invoke e c) = [] \<and> prefix ''Error: '' (returned (invoke e c))"
  by (cases c)
    (auto simp: operation_defs optional_outside_def nested_outside_def missing_api_key_def Let_def
      split: option.splits)

lemma accepted_one_request:
  "\<not> rejected c \<Longrightarrow> truthy (api_key e) \<Longrightarrow> length (requests (invoke e c)) = 1"
  by (cases c)
    (auto simp: operation_defs optional_outside_def nested_outside_def Let_def
      split: option.splits)

lemma rejected_run:
  "rejected c \<Longrightarrow>
   invoke e c =
     \<lparr>returned = (if truthy (api_key e) then rejection_message c else missing_api_key),
      requests = []\<rparr>"
  by (cases c)
    (auto simp: operation_defs optional_outside_def nested_outside_def no_request_def Let_def
      invalid_argument_def invalid_package_def invalid_combination_def split: option.splits)

lemma accepted_request:
  "\<not> rejected c \<Longrightarrow> truthy (api_key e) \<Longrightarrow>
   requests (invoke e c) =
     [\<lparr>url = request_url c, headers = hdr (api_key e), timeout = request_timeout c\<rparr>]"
  by (cases c)
    (auto simp: operation_defs optional_outside_def nested_outside_def Let_def
      listing_or_detail_def split: option.splits)

lemma rejection_message_names_value:
  "rejected c \<Longrightarrow> prefix ''Error: '' (rejection_message c)"
  by (cases c)
    (auto simp: optional_outside_def nested_outside_def invalid_argument_def invalid_package_def
      invalid_combination_def split: option.splits)

lemma listing_request:
  assumes "truthy (api_key e)" and "arg = None \<or> arg = Some []"
  shows "requests (invoke e (SdtmigClass version arg)) =
      [\<lparr>url = ''https://api.library.cdisc.org/api/mdr/sdtmig/'' @ version @ ''/classes'',
        headers = hdr (api_key e), timeout = 15\<rparr>]"
    and "requests (invoke e (SdtmigDataset version [])) =
      [\<lparr>url = ''https://api.library.cdisc.org/api/mdr/sdtmig/'' @ version @ ''/datasets'',
        headers = hdr (api_key e), timeout = 15\<rparr>]"
    and "requests (invoke e (SdtmModelClass version arg)) =
      [\<lparr>url = ''https://api.library.cdisc.org/api/mdr/sdtm/'' @ version @ ''/classes'',
        headers = hdr (api_key e), timeout = 15\<rparr>]"
    and "requests (invoke e (SdtmModelDataset version arg)) =
      [\<lparr>url = ''https://api.library.cdisc.org/api/mdr/sdtm/'' @ version @ ''/datasets'',
        headers = hdr (api_key e), timeout = 15\<rparr>]"
    and "requests (invoke e (SendigClass version arg)) =
      [\<lparr>url = ''https://api.library.cdisc.org/api/mdr/sendig/'' @ version @ ''/classes'',
        headers = hdr (api_key e), timeout = 15\<rparr>]"
    and "requests (invoke e (SendigDataset version arg)) =
      [\<lparr>url = ''https://api.library.cdisc.org/api/mdr/sendig/'' @ version @ ''/datasets'',
        headers = hdr (api_key e), timeout = 15\<rparr>]"
    and "requests (invoke e (CdashigClass version arg)) =
      [\<lparr>url = ''https://api.library.cdisc.org/api/mdr/cdashig/'' @ version @ ''/classes'',
        headers = hdr (api_key e), timeout = 15\<rparr>]"
    and "requests (invoke e (CdashigDomain version arg)) =
      [\<lparr>url = ''https://api.library.cdisc.org/api/mdr/cdashig/'' @ version @ ''/domains'',
        headers = hdr (api_key e), timeout = 15\<rparr>]"
    and "requests (invoke e (CdashigScenarios version arg)) =
      [\<lparr>url = ''https://api.library.cdisc.org/api/mdr/cdashig/'' @ version @ ''/scenarios'',
        headers = hdr (api_key e), timeout = 15\<rparr>]"
    and "requests (invoke e (CdashModelClass version arg)) =
      [\<lparr>url = ''https://api.library.cdisc.org/api/mdr/cdash/'' @ version @ ''/classes'',
        headers = hdr (api_key e), timeout = 15\<rparr>]"
    and "requests (invoke e (CdashModelDomain version arg)) =
      [\<lparr>url = ''https://api.library.cdisc.org/api/mdr/cdash/'' @ version @ ''/domains'',
        headers = hdr (api_key e), timeout = 15\<rparr>]"
  using assms
  by (auto simp: accepted_request optional_outside_def listing_or_detail_def
      simp del: invoke.simps)

lemma sublist_join: "x \<in> set xs \<Longrightarrow> sublist x (join sep xs)"
proof (induction sep xs rule: join.induct)
  case (3 sep a b ys)
  show ?case
  proof (cases "x = a")
    case True
    then show ?thesis by simp
  next
    case False
    with 3 have "sublist x (join sep (b # ys))" by simp
    then obtain ps ss where "join sep (b # ys) = ps @ x @ ss"
      by (auto simp: sublist_def)
    then have "join sep (a # b # ys) = (a @ sep @ ps) @ x @ ss" by simp
    then show ?thesis unfolding sublist_def by blast
  qed
qed simp_all

lemma sublist_suffix: "sublist x ys \<Longrightarrow> sublist x (zs @ ys)"
  by (metis sublist_append)

lemma missing_key_elsewhere:
  "c \<noteq> ProductList \<Longrightarrow> \<not> truthy (api_key e) \<Longrightarrow> invoke e c = no_request missing_api_key"
  by (cases c) (simp_all add: operation_defs)

lemma timeout_reported_as_network_error:
  "c \<noteq> ProductList \<Longrightarrow>
   invoke \<lparr>api_key = key, http_get = answer (TimeoutException msg)\<rparr> c =
   invoke \<lparr>api_key = key, http_get = answer (RequestError msg)\<rparr> c"
  by (cases c)
    (simp_all add: operation_defs fetch_def fetch_sliced_def answer_def Let_def
      split: option.splits)

lemma upstream_404:
  assumes "http_get e = answer (HTTPStatusError 404 body)"
    and "requests (invoke e c) \<noteq> []"
  shows "prefix ''API Error: '' (returned (invoke e c)) \<and> sublist ''404'' (returned (invoke e c))"
proof -
  have n: "str_nat 404 = ''404''"
    by (simp add: str_nat.simps digit_char_def)
  have s1: "sublist ''404'' (''API Error: HTTP '' @ ''404'' @ '' - '' @ body)"
    by (rule sublist_appendI)
  have s2: "sublist ''404'' (''API Error: CDISC Library returned status '' @ ''404'' @ ''.'')"
    by (rule sublist_appendI)
  from assms show ?thesis
    using s1 s2
    by (cases c)
      (auto simp: operation_defs fetch_def fetch_sliced_def answer_def Let_def n
        split: option.splits if_splits)
qed

lemma returned_fetch_success:
  "http_get e = answer (Success data) \<Longrightarrow> returned (fetch e u t on_success) = on_success data"
  by (simp add: fetch_def answer_def Let_def)

lemma drop_take_marker: "n < length s \<Longrightarrow> drop n (take n s @ marker) = marker"
  by simp

section \<open>Example inputs\<close>

text \<open>An environment with the API key set, and one without; the network always answers the same.\<close>

definition ex_env :: "http_outcome \<Rightarrow> env" where
  "ex_env outcome = \<lparr>api_key = Some ''secret'', http_get = answer outcome\<rparr>"

definition ex_env_without_key :: "http_outcome \<Rightarrow> env" where
  "ex_env_without_key outcome = \<lparr>api_key = None, http_get = answer outcome\<rparr>"

text \<open>
  Two responses whose serialization is longer than 130,000 characters: an object and a
  list, each holding one long string.
\<close>

definition ex_big_object :: json where
  "ex_big_object = JDict [(''description'', JStr (replicate 130000 CHR ''x''))]"

definition ex_big_list :: json where
  "ex_big_list = JList [JStr (replicate 130000 CHR ''x'')]"

lemma concat_replicate_single: "concat (replicate n [c]) = replicate n c"
  by (induction n) simp_all

lemma encode_str_replicate_x:
  "encode_str ea (replicate n CHR ''x'') = [CHR 0x22] @ replicate n CHR ''x'' @ [CHR 0x22]"
  by (simp add: encode_str_def escape_char_def concat_replicate_single)

lemma dumps_ex_big_object:
  "dumps ea '', '' '': '' ex_big_object =
     ''{'' @ [CHR 0x22] @ ''description'' @ [CHR 0x22] @ '': '' @ [CHR 0x22] @
     replicate 130000 CHR ''x'' @ [CHR 0x22] @ ''}''"
  by (simp add: ex_big_object_def encode_str_replicate_x) (simp add: encode_str_def escape_char_def)

lemma dumps_compact_ex_big_object:
  "json_dumps_compact ex_big_object =
     ''{'' @ [CHR 0x22] @ ''description'' @ [CHR 0x22] @ '':'' @ [CHR 0x22] @
     replicate 130000 CHR ''x'' @ [CHR 0x22] @ ''}''"
  by (simp add: json_dumps_compact_def ex_big_object_def encode_str_replicate_x)
    (simp add: encode_str_def escape_char_def)

lemma dumps_ex_big_list:
  "dumps ea '', '' '': '' ex_big_list =
     ''['' @ [CHR 0x22] @ replicate 130000 CHR ''x'' @ [CHR 0x22] @ '']''"
  by (simp add: ex_big_list_def encode_str_replicate_x)

lemma length_dumps_ex_big:
  "length (json_dumps ex_big_object) = 130019"
  "length (json_dumps_unicode ex_big_object) = 130019"
  "length (json_dumps_compact ex_big_object) = 130018"
  "length (json_dumps ex_big_list) = 130004"
  by (simp_all add: json_dumps_def json_dumps_unicode_def dumps_ex_big_object
      dumps_compact_ex_big_object dumps_ex_big_list)

text \<open>
  An ADaM product in miniature: a data structure with two analysis variables, and a
  nested variable set with an \<^verbatim>\<open>analysisVariables\<close> field of its own.
\<close>

definition ex_adam_product :: json where
  "ex_adam_product =
     JDict [(''name'', JStr ''ADSL''),
            (''analysisVariables'',
               JList [JDict [(''name'', JStr ''STUDYID'')], JDict [(''name'', JStr ''USUBJID'')]]),
            (''analysisVariableSets'',
               JList [JDict [(''ordinal'', JInt 1), (''analysisVariables'', JInt 3)]])]"

text \<open>The attributes of a terminology package, without its codelists.\<close>

definition ex_package_attributes :: json where
  "ex_package_attributes =
     JDict [(''name'', JStr ''SDTM CT 2024-09-27''), (''version'', JStr ''2024-09-27'')]"

text \<open>A tree with none of the keys the shapers look for.\<close>

definition ex_plain :: json where
  "ex_plain = JDict [(''name'', JStr ''ADSL''), (''ordinal'', JInt 1),
     (''items'', JList [JDict [(''label'', JStr ''Subject'')], JNull])]"

text \<open>
  A terminology package in miniature: the first codelist has its fields in another order
  than the minimization writes them, the second has a \<^verbatim>\<open>conceptId\<close> only.
\<close>

definition ex_package :: json where
  "ex_package =
     JDict [(''name'', JStr ''SDTM CT''),
            (''codelists'',
               JList [JDict [(''submissionValue'', JStr ''AESEV''),
                             (''conceptId'', JStr ''C66769''),
                             (''terms'', JList [JDict [(''conceptId'', JStr ''C41338''),
                                                       (''preferredTerm'', JStr ''Mild'')]])],
                      JDict [(''conceptId'', JStr ''C66742'')]])]"

definition ex_package_minimized :: json where
  "ex_package_minimized =
     JDict [(''codelists'',
               JList [JDict [(''conceptId'', JStr ''C66769''),
                             (''submissionValue'', JStr ''AESEV''),
                             (''terms'', JList [JDict [(''conceptId'', JStr ''C41338''),
                                                       (''submissionValue'', JNull)]])],
                      JDict [(''conceptId'', JStr ''C66742''),
                             (''submissionValue'', JNull),
                             (''terms'', JList [])]])]"

lemma minimize_codelists_ex_package: "minimize_codelists ex_package = Inr ex_package_minimized"
  by (simp add: ex_package_def ex_package_minimized_def minimize_codelists_def clean_codelist_def
      clean_terms_def clean_term_def)

text \<open>An analysis variable as the library serves it.\<close>

definition ex_self :: json where
  "ex_self = JDict [(''href'', JStr ''/mdr/adam/adamig-1-1/datastructures/ADSL/variables/STUDYID''),
                    (''title'', JStr ''Study Identifier'')]"

definition ex_variable :: json where
  "ex_variable =
     JDict [(''name'', JStr ''STUDYID''),
            (''_links'', JDict [(''self'', ex_self),
                                (''parentDatastructure'', JDict [(''href'', JStr ''/mdr/adam/adamig-1-1/datastructures/ADSL'')])])]"

text \<open>A variable whose self link holds analysis variables of its own.\<close>

definition ex_nested_self :: json where
  "ex_nested_self =
     JDict [(''href'', JStr ''/x''),
            (''analysisVariables'',
               JList [JDict [(''_links'', JDict [(''parentProduct'', JStr ''/p'')])]])]"

definition ex_nested_variable :: json where
  "ex_nested_variable =
     JDict [(''name'', JStr ''X''),
            (''_links'', JDict [(''self'', ex_nested_self), (''other'', JStr ''/o'')])]"

section \<open>The claims\<close>

text \<open>
  C1. For every operation, a serialization S longer than 130,000 characters is returned
  as its first 130,000 characters followed by the truncation marker. The code of
  \<^verbatim>\<open>get_sdtmig_class_info\<close> and of ten more operations does not do so: it slices the
  decoded value, not the text. For the object \<open>ex_big_object\<close> the slice raises and the
  operation returns an execution error; for the list \<open>ex_big_list\<close> the whole
  serialization is returned with the marker behind it;
  \<^verbatim>\<open>get_CDISC_Library_api_product_list\<close> returns the whole serialization and no marker.
  \<^verbatim>\<open>get_qrs_info\<close>, which slices the text, returns what the claim says.
\<close>

theorem C1_slice_of_decoded_value:
  "length (json_dumps ex_big_object) = 130019 \<and>
   returned (get_sdtmig_class_info (ex_env (Success ex_big_object)) ''3-4'' None) =
     ''Execution Error: unhashable type: '' @ quoted ''slice'' \<and>
   length (json_dumps ex_big_list) = 130004 \<and>
   returned (get_sdtmig_class_info (ex_env (Success ex_big_list)) ''3-4'' None) =
     json_dumps ex_big_list @ ''...The data is too long, please shorten the request.'' \<and>
   length (json_dumps_unicode ex_big_object) = 130019 \<and>
   returned (get_CDISC_Library_api_product_list (ex_env (Success ex_big_object))) =
     json_dumps_unicode ex_big_object \<and>
   returned (get_qrs_info (ex_env (Success ex_big_object)) ''AIMS01'' ''2-0'') =
     take 130000 (json_dumps ex_big_object) @
     ''...The data is too long, please shorten the request.''"
proof -
  have a: "returned (get_sdtmig_class_info (ex_env (Success ex_big_object)) ''3-4'' None) =
     ''Execution Error: unhashable type: '' @ quoted ''slice''"
    by (simp add: get_sdtmig_class_info_def ex_env_def truthy_def fetch_sliced_def fetch_def
        answer_def sliced_reply_def length_dumps_ex_big) (simp add: ex_big_object_def)
  have b: "returned (get_sdtmig_class_info (ex_env (Success ex_big_list)) ''3-4'' None) =
     json_dumps ex_big_list @ ''...The data is too long, please shorten the request.''"
    by (simp add: get_sdtmig_class_info_def ex_env_def truthy_def fetch_sliced_def fetch_def
        answer_def sliced_reply_def length_dumps_ex_big) (simp add: ex_big_list_def)
  have c: "returned (get_CDISC_Library_api_product_list (ex_env (Success ex_big_object))) =
     json_dumps_unicode ex_big_object"
    by (simp add: get_CDISC_Library_api_product_list_def ex_env_def answer_def)
  have d: "returned (get_qrs_info (ex_env (Success ex_big_object)) ''AIMS01'' ''2-0'') =
     take 130000 (json_dumps ex_big_object) @
     ''...The data is too long, please shorten the request.''"
    by (simp add: get_qrs_info_def ex_env_def truthy_def fetch_def answer_def capped_reply_def
        length_dumps_ex_big ALLOWED_qrs_combinations_def)
  from a b c d length_dumps_ex_big show ?thesis by simp
qed

text \<open>
  C2, as the spec states it: a value outside a parameter's allow-list, the enumerated
  version, scenario, codelist and term values included, never reaches the network. This
  fails: no operation tests the version, the scenario, the codelist or the term. A
  version that the docstring does not list, a scenario and a codelist and term that do
  not exist are each put into the URL and requested.
\<close>

theorem C2_version_not_validated:
  "''9-9'' \<notin> set sdtmig_versions \<and>
   requests (invoke (ex_env (HTTPStatusError 404 ''Not Found'')) (SdtmigClass ''9-9'' None)) =
     [\<lparr>url = ''https://api.library.cdisc.org/api/mdr/sdtmig/9-9/classes'',
       headers = hdr (Some ''secret''), timeout = 15\<rparr>] \<and>
   requests (invoke (ex_env (HTTPStatusError 404 ''Not Found''))
       (CdashigScenarios ''2-3'' (Some ''no such scenario''))) =
     [\<lparr>url = ''https://api.library.cdisc.org/api/mdr/cdashig/2-3/scenarios/no such scenario'',
       headers = hdr (Some ''secret''), timeout = 15\<rparr>] \<and>
   requests (invoke (ex_env (HTTPStatusError 404 ''Not Found''))
       (PackageCtCodelistTerm ''tmfct-2024-09-27'' ''no-codelist'' ''no-term'')) =
     [\<lparr>url = ''https://api.library.cdisc.org/api/mdr/ct/packages/tmfct-2024-09-27/codelists/no-codelist/terms/no-term'',
       headers = hdr (Some ''secret''), timeout = 30\<rparr>]"
  by (simp add: sdtmig_versions_def ex_env_def get_sdtmig_class_info_def
      get_cdashig_scenarios_info_def get_package_ct_codelist_term_info_def truthy_def ct_package_def)

text \<open>
  C2, amended. For every operation and every argument the operation tests against an
  allow-list (\<open>rejected\<close>: a non-empty class, dataset or domain name; the product and
  datastructure of \<^verbatim>\<open>get_adam_datastructure_info\<close>; the instrument and version of
  \<^verbatim>\<open>get_qrs_info\<close>; the package), a value outside the list makes the operation return
  an error string that starts with \<^verbatim>\<open>Error: \<close> - the message of the failed test
  (\<open>rejection_message\<close>), or the configuration-error string when the API key is not
  set - and the HTTP client is not called. The version of a standard, the scenario, the
  product of \<^verbatim>\<open>get_adam_product_info\<close>, the codelist and the term are tested by no
  operation: a call that fails none of the tests, made with the API key set, calls the
  HTTP client exactly once, with the URL of the operation in which these values stand as
  they were supplied (\<open>request_url\<close>). An argument that may be left out is not
  tested when it is omitted or empty, and the URL asked for, with the API key set, is
  that of the listing.
\<close>

theorem C2_rejected_before_request:
  "(rejected c \<longrightarrow>
      requests (invoke e c) = [] \<and> prefix ''Error: '' (returned (invoke e c)) \<and>
      returned (invoke e c) =
        (if truthy (api_key e) then rejection_message c else missing_api_key)) \<and>
   (\<not> rejected c \<and> truthy (api_key e) \<longrightarrow>
      length (requests (invoke e c)) = 1 \<and>
      requests (invoke e c) =
        [\<lparr>url = request_url c, headers = hdr (api_key e), timeout = request_timeout c\<rparr>]) \<and>
   (truthy (api_key e) \<and> (arg = None \<or> arg = Some []) \<longrightarrow>
      requests (invoke e (SdtmigClass version arg)) =
        [\<lparr>url = ''https://api.library.cdisc.org/api/mdr/sdtmig/'' @ version @ ''/classes'',
          headers = hdr (api_key e), timeout = 15\<rparr>] \<and>
      requests (invoke e (SdtmigDataset version [])) =
        [\<lparr>url = ''https://api.library.cdisc.org/api/mdr/sdtmig/'' @ version @ ''/datasets'',
          headers = hdr (api_key e), timeout = 15\<rparr>] \<and>
      requests (invoke e (SdtmModelClass version arg)) =
        [\<lparr>url = ''https://api.library.cdisc.org/api/mdr/sdtm/'' @ version @ ''/classes'',
          headers = hdr (api_key e), timeout = 15\<rparr>] \<and>
      requests (invoke e (SdtmModelDataset version arg)) =
        [\<lparr>url = ''https://api.library.cdisc.org/api/mdr/sdtm/'' @ version @ ''/datasets'',
          headers = hdr (api_key e), timeout = 15\<rparr>] \<and>
      requests (invoke e (SendigClass version arg)) =
        [\<lparr>url = ''https://api.library.cdisc.org/api/mdr/sendig/'' @ version @ ''/classes'',
          headers = hdr (api_key e), timeout = 15\<rparr>] \<and>
      requests (invoke e (SendigDataset version arg)) =
        [\<lparr>url = ''https://api.library.cdisc.org/api/mdr/sendig/'' @ version @ ''/datasets'',
          headers = hdr (api_key e), timeout = 15\<rparr>] \<and>
      requests (invoke e (CdashigClass version arg)) =
        [\<lparr>url = ''https://api.library.cdisc.org/api/mdr/cdashig/'' @ version @ ''/classes'',
          headers = hdr (api_key e), timeout = 15\<rparr>] \<and>
      requests (invoke e (CdashigDomain version arg)) =
        [\<lparr>url = ''https://api.library.cdisc.org/api/mdr/cdashig/'' @ version @ ''/domains'',
          headers = hdr (api_key e), timeout = 15\<rparr>] \<and>
      requests (invoke e (CdashigScenarios version arg)) =
        [\<lparr>url = ''https://api.library.cdisc.org/api/mdr/cdashig/'' @ version @ ''/scenarios'',
          headers = hdr (api_key e), timeout = 15\<rparr>] \<and>
      requests (invoke e (CdashModelClass version arg)) =
        [\<lparr>url = ''https://api.library.cdisc.org/api/mdr/cdash/'' @ version @ ''/classes'',
          headers = hdr (api_key e), timeout = 15\<rparr>] \<and>
      requests (invoke e (CdashModelDomain version arg)) =
        [\<lparr>url = ''https://api.library.cdisc.org/api/mdr/cdash/'' @ version @ ''/domains'',
          headers = hdr (api_key e), timeout = 15\<rparr>])"
proof (intro conjI impI)
  assume r: "rejected c"
  then show "requests (invoke e c) = []"
    by (simp add: rejected_run)
  from r show "returned (invoke e c) =
      (if truthy (api_key e) then rejection_message c else missing_api_key)"
    by (simp add: rejected_run)
  from r show "prefix ''Error: '' (returned (invoke e c))"
    using rejection_message_names_value [of c]
    by (simp add: rejected_run missing_api_key_def)
next
  assume a: "\<not> rejected c \<and> truthy (api_key e)"
  then show "requests (invoke e c) =
      [\<lparr>url = request_url c, headers = hdr (api_key e), timeout = request_timeout c\<rparr>]"
    by (simp add: accepted_request)
  then show "length (requests (invoke e c)) = 1"
    by simp
qed (blast intro: listing_request)+


theorem C2_rejected_before_request_witness:
  "rejected (SdtmigClass ''3-4'' (Some ''Bogus'')) \<and>
   invoke (ex_env (Success JNull)) (SdtmigClass ''3-4'' (Some ''Bogus'')) =
     \<lparr>returned = ''Error: className is invalid, got '' @ quoted ''Bogus'', requests = []\<rparr> \<and>
   prefix ''Error: '' (returned (invoke (ex_env (Success JNull)) (SdtmigClass ''3-4'' (Some ''Bogus'')))) \<and>
   \<not> rejected (SdtmigClass ''9-9'' (Some ''Events'')) \<and> truthy (api_key (ex_env (Success JNull))) \<and>
   length (requests (invoke (ex_env (Success JNull)) (SdtmigClass ''9-9'' (Some ''Events'')))) = 1 \<and>
   requests (invoke (ex_env (Success JNull)) (SdtmigClass ''9-9'' (Some ''Events''))) =
     [\<lparr>url = ''https://api.library.cdisc.org/api/mdr/sdtmig/9-9/classes/Events/datasets?expand=false'',
       headers = hdr (Some ''secret''), timeout = 15\<rparr>] \<and>
   requests (invoke (ex_env (Success JNull)) (SdtmigClass ''3-4'' None)) =
     [\<lparr>url = ''https://api.library.cdisc.org/api/mdr/sdtmig/3-4/classes'',
       headers = hdr (Some ''secret''), timeout = 15\<rparr>] \<and>
   requests (invoke (ex_env (Success JNull)) (CdashigDomain ''2-3'' (Some []))) =
     [\<lparr>url = ''https://api.library.cdisc.org/api/mdr/cdashig/2-3/domains'',
       headers = hdr (Some ''secret''), timeout = 15\<rparr>]"
proof -
  have r: "rejected (SdtmigClass ''3-4'' (Some ''Bogus''))"
    and a: "\<not> rejected (SdtmigClass ''9-9'' (Some ''Events''))"
    by (simp_all add: optional_outside_def sdtmig_classes_def)
  have k: "truthy (api_key (ex_env (Success JNull)))"
    and key: "api_key (ex_env (Success JNull)) = Some ''secret''"
    by (simp_all add: ex_env_def truthy_def)
  have m: "rejection_message (SdtmigClass ''3-4'' (Some ''Bogus'')) =
      ''Error: className is invalid, got '' @ quoted ''Bogus''"
    by (simp add: invalid_argument_def)
  have u: "request_url (SdtmigClass ''9-9'' (Some ''Events'')) =
      ''https://api.library.cdisc.org/api/mdr/sdtmig/9-9/classes/Events/datasets?expand=false''"
    by (simp add: listing_or_detail_def)
  note t1 = C2_rejected_before_request [where c = "SdtmigClass ''3-4'' (Some ''Bogus'')"
      and e = "ex_env (Success JNull)" and arg = None and version = "''3-4''"]
  note t2 = C2_rejected_before_request [where c = "SdtmigClass ''9-9'' (Some ''Events'')"
      and e = "ex_env (Success JNull)" and arg = "Some []" and version = "''2-3''"]
  note p = t1 [THEN conjunct1, THEN mp, OF r]
  from p k have v: "invoke (ex_env (Success JNull)) (SdtmigClass ''3-4'' (Some ''Bogus'')) =
     \<lparr>returned = ''Error: className is invalid, got '' @ quoted ''Bogus'', requests = []\<rparr>"
    unfolding m by (simp del: invoke.simps)
  have c1: "truthy (api_key (ex_env (Success JNull))) \<and> (None = None \<or> None = Some [])"
    and c2: "truthy (api_key (ex_env (Success JNull))) \<and> (Some [] = None \<or> Some [] = Some [])"
    and c3: "\<not> rejected (SdtmigClass ''9-9'' (Some ''Events'')) \<and>
      truthy (api_key (ex_env (Success JNull)))"
    using k a by simp_all
  note l1 = t1 [THEN conjunct2, THEN conjunct2, THEN mp, OF c1, THEN conjunct1, unfolded key]
  note l2 = t2 [THEN conjunct2, THEN conjunct2, THEN mp, OF c2, THEN conjunct2, THEN conjunct2,
      THEN conjunct2, THEN conjunct2, THEN conjunct2, THEN conjunct2, THEN conjunct2,
      THEN conjunct1, unfolded key]
  note q = t2 [THEN conjunct2, THEN conjunct1, THEN mp, OF c3, unfolded key u]
  from r a k v p [THEN conjunct2, THEN conjunct1] q [THEN conjunct1] q [THEN conjunct2] l1 l2
  show ?thesis by (simp del: invoke.simps)
qed


text \<open>
  C3, as the spec states it: every shaping transformation only removes or restricts
  fields; a field name at a node of the output was at that node of the input, and the
  fields that remain keep their order. This fails for Field-whitelist-flatten: the second
  codelist of \<open>ex_package\<close> has the single field \<^verbatim>\<open>conceptId\<close> and comes out with
  \<^verbatim>\<open>submissionValue\<close> and \<^verbatim>\<open>terms\<close> added; the first has \<^verbatim>\<open>submissionValue\<close> before
  \<^verbatim>\<open>conceptId\<close> and comes out with the two swapped.
\<close>

theorem C3_flatten_invents_and_reorders:
  "minimize_codelists ex_package = Inr ex_package_minimized \<and>
   map_option field_names (node_at ex_package [Key ''codelists'', Index 1]) = Some [''conceptId''] \<and>
   map_option field_names (node_at ex_package_minimized [Key ''codelists'', Index 1]) =
     Some [''conceptId'', ''submissionValue'', ''terms''] \<and>
   map_option field_names (node_at ex_package [Key ''codelists'', Index 0]) =
     Some [''submissionValue'', ''conceptId'', ''terms''] \<and>
   map_option field_names (node_at ex_package_minimized [Key ''codelists'', Index 0]) =
     Some [''conceptId'', ''submissionValue'', ''terms''] \<and>
   \<not> within ex_package_minimized ex_package"
proof -
  have nodes:
    "node_at ex_package [Key ''codelists'', Index 1] = Some (JDict [(''conceptId'', JStr ''C66742'')])"
    "node_at ex_package_minimized [Key ''codelists'', Index 1] =
       Some (JDict [(''conceptId'', JStr ''C66742''), (''submissionValue'', JNull), (''terms'', JList [])])"
    by (simp_all add: ex_package_def ex_package_minimized_def)
  have "\<not> within ex_package_minimized ex_package"
  proof
    assume "within ex_package_minimized ex_package"
    then have "\<exists>n. node_at ex_package [Key ''codelists'', Index 1] = Some n \<and>
        subseq [''conceptId'', ''submissionValue'', ''terms''] (field_names n)"
      unfolding within_def using nodes(2) by fastforce
    with nodes(1) show False by simp
  qed
  then show ?thesis
    using minimize_codelists_ex_package nodes by (simp add: ex_package_def ex_package_minimized_def)
qed


text \<open>
  C3, amended. For Subtree-clear and Link-prune and every input tree: every node of the
  output lies on a path that leads to a node of the input too, and its field names are
  field names of that input node, in the input's order. Field-whitelist-flatten builds a
  new tree instead. Whenever it returns, the root has the single field \<^verbatim>\<open>codelists\<close>.
  Every codelist of the output stands at the index of a codelist of the input and has the
  fields \<^verbatim>\<open>conceptId\<close>, \<^verbatim>\<open>submissionValue\<close>, \<^verbatim>\<open>terms\<close> in this order, whether the input
  had them or not: \<^verbatim>\<open>conceptId\<close> and \<^verbatim>\<open>submissionValue\<close> hold the values of the input
  codelist, and null where the input codelist lacks the field; \<^verbatim>\<open>terms\<close> is the empty
  list where the input codelist has no \<^verbatim>\<open>terms\<close>. Every term of the output stands at
  the index of a term of the input and has the fields \<^verbatim>\<open>conceptId\<close>,
  \<^verbatim>\<open>submissionValue\<close> in this order, holding the values of the input term, and null
  where the input term lacks the field.
\<close>

theorem C3_shaping_fields:
  "(node_at (remove_all_analysis_variables obj) path = Some n' \<longrightarrow>
      (\<exists>n. node_at obj path = Some n \<and> subseq (field_names n') (field_names n))) \<and>
   (node_at (remove_links_parent_refs obj parent_key) path = Some n' \<longrightarrow>
      (\<exists>n. node_at obj path = Some n \<and> subseq (field_names n') (field_names n))) \<and>
   (minimize_codelists raw_data = Inr final_data \<longrightarrow>
      field_names final_data = [''codelists''] \<and>
      (node_at final_data [Key ''codelists'', Index i] = Some cl' \<longrightarrow>
         field_names cl' = [''conceptId'', ''submissionValue'', ''terms''] \<and>
         (\<exists>cl. node_at raw_data [Key ''codelists'', Index i] = Some cl \<and>
            node_at cl' [Key ''conceptId''] =
              Some (case node_at cl [Key ''conceptId''] of Some v \<Rightarrow> v | None \<Rightarrow> JNull) \<and>
            node_at cl' [Key ''submissionValue''] =
              Some (case node_at cl [Key ''submissionValue''] of Some v \<Rightarrow> v | None \<Rightarrow> JNull) \<and>
            (node_at cl [Key ''terms''] = None \<longrightarrow>
               node_at cl' [Key ''terms''] = Some (JList [])))) \<and>
      (node_at final_data [Key ''codelists'', Index i, Key ''terms'', Index j] = Some t' \<longrightarrow>
         field_names t' = [''conceptId'', ''submissionValue''] \<and>
         (\<exists>t. node_at raw_data [Key ''codelists'', Index i, Key ''terms'', Index j] = Some t \<and>
            node_at t' [Key ''conceptId''] =
              Some (case node_at t [Key ''conceptId''] of Some v \<Rightarrow> v | None \<Rightarrow> JNull) \<and>
            node_at t' [Key ''submissionValue''] =
              Some (case node_at t [Key ''submissionValue''] of Some v \<Rightarrow> v | None \<Rightarrow> JNull))))"
proof (intro conjI impI)
  assume "node_at (remove_all_analysis_variables obj) path = Some n'"
  then show "\<exists>n. node_at obj path = Some n \<and> subseq (field_names n') (field_names n)"
    using within_remove_all_analysis_variables [of obj] unfolding within_def by blast
next
  assume "node_at (remove_links_parent_refs obj parent_key) path = Some n'"
  then show "\<exists>n. node_at obj path = Some n \<and> subseq (field_names n') (field_names n)"
    using within_remove_links_parent_refs [of obj parent_key] unfolding within_def by blast
next
  assume "minimize_codelists raw_data = Inr final_data"
  then show "field_names final_data = [''codelists'']"
    by (rule minimize_codelists_fields)
next
  assume m: "minimize_codelists raw_data = Inr final_data"
    and n: "node_at final_data [Key ''codelists'', Index i] = Some cl'"
  from minimize_codelists_codelist [OF m n] obtain cl where
    cl: "node_at raw_data [Key ''codelists'', Index i] = Some cl" "clean_codelist cl = Inr cl'"
    by blast
  from clean_codelist_values [OF cl(2)]
  show "field_names cl' = [''conceptId'', ''submissionValue'', ''terms'']"
    by (rule conjunct1)
  from clean_codelist_values [OF cl(2)] cl(1)
  show "\<exists>cl. node_at raw_data [Key ''codelists'', Index i] = Some cl \<and>
            node_at cl' [Key ''conceptId''] =
              Some (case node_at cl [Key ''conceptId''] of Some v \<Rightarrow> v | None \<Rightarrow> JNull) \<and>
            node_at cl' [Key ''submissionValue''] =
              Some (case node_at cl [Key ''submissionValue''] of Some v \<Rightarrow> v | None \<Rightarrow> JNull) \<and>
            (node_at cl [Key ''terms''] = None \<longrightarrow>
               node_at cl' [Key ''terms''] = Some (JList []))"
    by (intro exI [of _ cl]) simp
next
  assume m: "minimize_codelists raw_data = Inr final_data"
    and n: "node_at final_data [Key ''codelists'', Index i, Key ''terms'', Index j] = Some t'"
  from n obtain cl' where cl': "node_at final_data [Key ''codelists'', Index i] = Some cl'"
    "node_at cl' [Key ''terms'', Index j] = Some t'"
    unfolding node_at_codelist_term [of final_data]
    by (cases "node_at final_data [Key ''codelists'', Index i]") simp_all
  from minimize_codelists_codelist [OF m cl'(1)] obtain cl where
    cl: "node_at raw_data [Key ''codelists'', Index i] = Some cl" "clean_codelist cl = Inr cl'"
    by blast
  from clean_codelist_term [OF cl(2) cl'(2)] obtain t where
    t: "node_at cl [Key ''terms'', Index j] = Some t" "clean_term t = Inr t'"
    by blast
  from cl(1) t(1) have raw: "node_at raw_data [Key ''codelists'', Index i, Key ''terms'', Index j] = Some t"
    unfolding node_at_codelist_term [of raw_data] by simp
  from clean_term_values [OF t(2)]
  show "field_names t' = [''conceptId'', ''submissionValue'']"
    by (rule conjunct1)
  from clean_term_values [OF t(2)] raw
  show "\<exists>t. node_at raw_data [Key ''codelists'', Index i, Key ''terms'', Index j] = Some t \<and>
            node_at t' [Key ''conceptId''] =
              Some (case node_at t [Key ''conceptId''] of Some v \<Rightarrow> v | None \<Rightarrow> JNull) \<and>
            node_at t' [Key ''submissionValue''] =
              Some (case node_at t [Key ''submissionValue''] of Some v \<Rightarrow> v | None \<Rightarrow> JNull)"
    by (intro exI [of _ t]) simp
qed


theorem C3_shaping_fields_witness:
  "node_at (remove_all_analysis_variables ex_adam_product) [Key ''analysisVariableSets'', Index 0] =
     Some (JDict [(''ordinal'', JInt 1), (''analysisVariables'', JList [])]) \<and>
   node_at (remove_links_parent_refs ex_variable (Some ''analysisVariables'')) [Key ''_links''] =
     Some (JDict [(''self'', ex_self)]) \<and>
   (\<exists>n. node_at ex_adam_product [Key ''analysisVariableSets'', Index 0] = Some n \<and>
      subseq [''ordinal'', ''analysisVariables''] (field_names n)) \<and>
   (\<exists>n. node_at ex_variable [Key ''_links''] = Some n \<and> subseq [''self''] (field_names n)) \<and>
   minimize_codelists ex_package = Inr ex_package_minimized \<and>
   node_at ex_package_minimized [Key ''codelists'', Index 1] =
     Some (JDict [(''conceptId'', JStr ''C66742''), (''submissionValue'', JNull),
                  (''terms'', JList [])]) \<and>
   node_at ex_package_minimized [Key ''codelists'', Index 0, Key ''terms'', Index 0] =
     Some (JDict [(''conceptId'', JStr ''C41338''), (''submissionValue'', JNull)]) \<and>
   field_names ex_package_minimized = [''codelists''] \<and>
   (\<exists>cl. node_at ex_package [Key ''codelists'', Index 1] = Some cl \<and>
      node_at (JDict [(''conceptId'', JStr ''C66742''), (''submissionValue'', JNull),
                      (''terms'', JList [])]) [Key ''conceptId''] =
        Some (case node_at cl [Key ''conceptId''] of Some v \<Rightarrow> v | None \<Rightarrow> JNull) \<and>
      node_at (JDict [(''conceptId'', JStr ''C66742''), (''submissionValue'', JNull),
                      (''terms'', JList [])]) [Key ''submissionValue''] =
        Some (case node_at cl [Key ''submissionValue''] of Some v \<Rightarrow> v | None \<Rightarrow> JNull) \<and>
      (node_at cl [Key ''terms''] = None \<longrightarrow>
         node_at (JDict [(''conceptId'', JStr ''C66742''), (''submissionValue'', JNull),
                         (''terms'', JList [])]) [Key ''terms''] = Some (JList []))) \<and>
   (\<exists>t. node_at ex_package [Key ''codelists'', Index 0, Key ''terms'', Index 0] = Some t \<and>
      node_at (JDict [(''conceptId'', JStr ''C41338''), (''submissionValue'', JNull)])
          [Key ''conceptId''] =
        Some (case node_at t [Key ''conceptId''] of Some v \<Rightarrow> v | None \<Rightarrow> JNull) \<and>
      node_at (JDict [(''conceptId'', JStr ''C41338''), (''submissionValue'', JNull)])
          [Key ''submissionValue''] =
        Some (case node_at t [Key ''submissionValue''] of Some v \<Rightarrow> v | None \<Rightarrow> JNull)) \<and>
   node_at ex_package [Key ''codelists'', Index 1, Key ''submissionValue''] = None \<and>
   node_at ex_package [Key ''codelists'', Index 1, Key ''terms''] = None"
proof -
  have a: "node_at (remove_all_analysis_variables ex_adam_product)
      [Key ''analysisVariableSets'', Index 0] =
     Some (JDict [(''ordinal'', JInt 1), (''analysisVariables'', JList [])])"
    by (simp add: ex_adam_product_def clear_analysis_variables_def dict_has_def)
  have b: "node_at (remove_links_parent_refs ex_variable (Some ''analysisVariables''))
      [Key ''_links''] = Some (JDict [(''self'', ex_self)])"
    by (simp add: ex_variable_def ex_self_def prune_links_def)
  have c: "node_at ex_package_minimized [Key ''codelists'', Index 1] =
     Some (JDict [(''conceptId'', JStr ''C66742''), (''submissionValue'', JNull),
                  (''terms'', JList [])])"
    and d: "node_at ex_package_minimized [Key ''codelists'', Index 0, Key ''terms'', Index 0] =
     Some (JDict [(''conceptId'', JStr ''C41338''), (''submissionValue'', JNull)])"
    by (simp_all add: ex_package_minimized_def)
  have absent: "node_at ex_package [Key ''codelists'', Index 1, Key ''submissionValue''] = None"
    "node_at ex_package [Key ''codelists'', Index 1, Key ''terms''] = None"
    by (simp_all add: ex_package_def)
  note m = minimize_codelists_ex_package
  note t1 = C3_shaping_fields [where obj = ex_adam_product
      and path = "[Key ''analysisVariableSets'', Index 0]"
      and n' = "JDict [(''ordinal'', JInt 1), (''analysisVariables'', JList [])]"
      and raw_data = ex_package and final_data = ex_package_minimized and i = 1
      and cl' = "JDict [(''conceptId'', JStr ''C66742''), (''submissionValue'', JNull),
                  (''terms'', JList [])]"]
  note t2 = C3_shaping_fields [where obj = ex_variable and path = "[Key ''_links'']"
      and n' = "JDict [(''self'', ex_self)]" and parent_key = "Some ''analysisVariables''"
      and raw_data = ex_package and final_data = ex_package_minimized and i = 0 and j = 0
      and t' = "JDict [(''conceptId'', JStr ''C41338''), (''submissionValue'', JNull)]"]
  from t1 [THEN conjunct1, THEN mp, OF a]
  have e: "\<exists>n. node_at ex_adam_product [Key ''analysisVariableSets'', Index 0] = Some n \<and>
      subseq [''ordinal'', ''analysisVariables''] (field_names n)"
    by simp
  from t2 [THEN conjunct2, THEN conjunct1, THEN mp, OF b]
  have f: "\<exists>n. node_at ex_variable [Key ''_links''] = Some n \<and> subseq [''self''] (field_names n)"
    by simp
  note u1 = t1 [THEN conjunct2, THEN conjunct2, THEN mp, OF m]
  note u2 = t2 [THEN conjunct2, THEN conjunct2, THEN mp, OF m]
  note g = u1 [THEN conjunct1]
  note h = u1 [THEN conjunct2, THEN conjunct1, THEN mp, OF c, THEN conjunct2]
  note k = u2 [THEN conjunct2, THEN conjunct2, THEN mp, OF d, THEN conjunct2]
  from a b e f m c d g h k absent show ?thesis
    by (intro conjI)
qed


text \<open>
  C4. Every operation called without a configured API key returns the fixed
  configuration-error string and attempts no request. The code of
  \<^verbatim>\<open>get_CDISC_Library_api_product_list\<close> does not test the key: with the variable unset
  it hands a request with the header value \<^verbatim>\<open>None\<close> to the HTTP client, with the
  variable empty one with an empty key, and returns whatever comes of that. Every other
  operation, here \<^verbatim>\<open>get_sdtmig_class_info\<close>, returns the fixed string and issues
  nothing.
\<close>

theorem C4_product_list_without_key:
  "get_CDISC_Library_api_product_list
     \<lparr>api_key = None, http_get = answer (OtherException ''Header value must be str or bytes'')\<rparr> =
     \<lparr>returned = ''Unexpected Error: Header value must be str or bytes'',
      requests = [\<lparr>url = ''https://api.library.cdisc.org/api/mdr/products?expand=false'',
                   headers = [(''Cache-Control'', Some ''no-cache''), (''api-key'', None),
                              (''Accept'', Some ''application/json'')],
                   timeout = 15\<rparr>]\<rparr> \<and>
   get_CDISC_Library_api_product_list
     \<lparr>api_key = Some [], http_get = answer (HTTPStatusError 401 ''Unauthorized'')\<rparr> =
     \<lparr>returned = ''API Error: CDISC Library returned status 401.'',
      requests = [\<lparr>url = ''https://api.library.cdisc.org/api/mdr/products?expand=false'',
                   headers = [(''Cache-Control'', Some ''no-cache''), (''api-key'', Some []),
                              (''Accept'', Some ''application/json'')],
                   timeout = 15\<rparr>]\<rparr> \<and>
   invoke \<lparr>api_key = None, http_get = answer (HTTPStatusError 401 ''Unauthorized'')\<rparr>
       (SdtmigClass ''3-4'' None) =
     \<lparr>returned = ''Error: CDISC_API_KEY environment variable not found.'', requests = []\<rparr>"
  by (simp add: get_CDISC_Library_api_product_list_def get_sdtmig_class_info_def answer_def hdr_def
      str_nat.simps digit_char_def truthy_def no_request_def missing_api_key_def)

text \<open>
  C5, as the spec states it: on an input with no occurrence of the target field at all,
  each of the three shapers returns the input unchanged. This fails for
  Field-whitelist-flatten: \<open>ex_package_attributes\<close> has none of the four keys the
  minimization reads, and what comes back is a dict with an empty \<^verbatim>\<open>codelists\<close> list.
\<close>

theorem C5_flatten_changes_input:
  "\<not> occurs ''codelists'' ex_package_attributes \<and>
   \<not> occurs ''terms'' ex_package_attributes \<and>
   \<not> occurs ''conceptId'' ex_package_attributes \<and>
   \<not> occurs ''submissionValue'' ex_package_attributes \<and>
   minimize_codelists ex_package_attributes = Inr (JDict [(''codelists'', JList [])]) \<and>
   minimize_codelists ex_package_attributes \<noteq> Inr ex_package_attributes"
  by (simp add: ex_package_attributes_def dict_has_def minimize_codelists_def)


text \<open>
  C5, amended. A tree in which the key \<^verbatim>\<open>analysisVariables\<close> does not occur is returned
  unchanged by \<^verbatim>\<open>remove_all_analysis_variables\<close>, and by
  \<^verbatim>\<open>remove_links_parent_refs\<close> as the program calls it (no parent key); a tree in which
  the key \<^verbatim>\<open>_links\<close> does not occur is returned unchanged by
  \<^verbatim>\<open>remove_links_parent_refs\<close> under any parent key. The minimization of
  \<^verbatim>\<open>get_package_ct_info\<close> does not return its input: for a dict with no \<^verbatim>\<open>codelists\<close>
  field the result is the dict with the single field \<^verbatim>\<open>codelists\<close>, an empty list.
\<close>

theorem C5_unchanged_without_target:
  "(\<not> occurs ''analysisVariables'' obj \<longrightarrow> remove_all_analysis_variables obj = obj) \<and>
   (\<not> occurs ''_links'' obj \<longrightarrow> remove_links_parent_refs obj parent_key = obj) \<and>
   (\<not> occurs ''analysisVariables'' obj \<longrightarrow> remove_links_parent_refs obj None = obj) \<and>
   (\<not> dict_has kvs ''codelists'' \<longrightarrow>
      minimize_codelists (JDict kvs) = Inr (JDict [(''codelists'', JList [])]))"
  by (simp add: remove_all_analysis_variables_unchanged remove_links_parent_refs_no_links
      remove_links_parent_refs_no_parent minimize_codelists_absent)

theorem C5_unchanged_without_target_witness:
  "\<not> occurs ''analysisVariables'' ex_plain \<and> \<not> occurs ''_links'' ex_plain \<and>
   remove_all_analysis_variables ex_plain = ex_plain \<and>
   remove_links_parent_refs ex_plain (Some ''analysisVariables'') = ex_plain \<and>
   remove_links_parent_refs ex_plain None = ex_plain \<and>
   \<not> dict_has [(''name'', JStr ''SDTM CT'')] ''codelists'' \<and>
   minimize_codelists (JDict [(''name'', JStr ''SDTM CT'')]) = Inr (JDict [(''codelists'', JList [])])"
proof -
  have a: "\<not> occurs ''analysisVariables'' ex_plain" and l: "\<not> occurs ''_links'' ex_plain"
    by (simp_all add: ex_plain_def dict_has_def)
  have c: "\<not> dict_has [(''name'', JStr ''SDTM CT'')] ''codelists''"
    by (simp add: dict_has_def)
  show ?thesis
    using a l c C5_unchanged_without_target [of ex_plain "Some ''analysisVariables''" "[(''name'', JStr ''SDTM CT'')]"]
    by simp
qed

text \<open>
  C6, as the spec states it: the truncation marker is the same fixed string across all
  operations. This fails: on the same oversized response \<^verbatim>\<open>get_qrs_info\<close> ends with
  one marker and \<^verbatim>\<open>get_package_ct_codelist_info\<close> with another.
\<close>

theorem C6_two_markers:
  "drop 130000 (returned (get_qrs_info (ex_env (Success ex_big_object)) ''AIMS01'' ''2-0'')) =
     ''...The data is too long, please shorten the request.'' \<and>
   drop 130000 (returned (get_package_ct_codelist_info (ex_env (Success ex_big_object))
       ''tmfct-2024-09-27'' ''C66769'')) = [CHR 0x0A] @ ''... [Truncated]'' \<and>
   drop 130000 (returned (get_qrs_info (ex_env (Success ex_big_object)) ''AIMS01'' ''2-0'')) \<noteq>
   drop 130000 (returned (get_package_ct_codelist_info (ex_env (Success ex_big_object))
       ''tmfct-2024-09-27'' ''C66769''))"
proof -
  have a: "returned (get_qrs_info (ex_env (Success ex_big_object)) ''AIMS01'' ''2-0'') =
     take 130000 (json_dumps ex_big_object) @
     ''...The data is too long, please shorten the request.''"
    by (simp add: get_qrs_info_def ex_env_def truthy_def fetch_def answer_def capped_reply_def
        length_dumps_ex_big ALLOWED_qrs_combinations_def)
  have b: "returned (get_package_ct_codelist_info (ex_env (Success ex_big_object))
       ''tmfct-2024-09-27'' ''C66769'') =
     take 130000 (json_dumps_compact ex_big_object) @ [CHR 0x0A] @ ''... [Truncated]''"
    by (simp add: get_package_ct_codelist_info_def ex_env_def truthy_def fetch_def answer_def
        truncated_reply_def length_dumps_ex_big ct_package_def)
  have a': "drop 130000 (returned (get_qrs_info (ex_env (Success ex_big_object)) ''AIMS01'' ''2-0'')) =
     ''...The data is too long, please shorten the request.''"
    unfolding a by (rule drop_take_marker) (simp add: length_dumps_ex_big)
  have b': "drop 130000 (returned (get_package_ct_codelist_info (ex_env (Success ex_big_object))
       ''tmfct-2024-09-27'' ''C66769'')) = [CHR 0x0A] @ ''... [Truncated]''"
    unfolding b by (rule drop_take_marker) (simp add: length_dumps_ex_big)
  show ?thesis
    unfolding a' b' by simp
qed


text \<open>
  C6, amended. The operations that cut the serialized text all use the one threshold
  130,000: a serialization S longer than that is returned as its first 130,000 characters
  followed by a marker, a shorter one unchanged. S is the default serialization of the
  shaped response and the marker is
  \<^verbatim>\<open>...The data is too long, please shorten the request.\<close> in
  \<^verbatim>\<open>get_adam_product_info\<close>, \<^verbatim>\<open>get_adam_datastructure_info\<close> and \<^verbatim>\<open>get_qrs_info\<close>;
  S is the compact serialization and the marker is a line feed and \<^verbatim>\<open>... [Truncated]\<close>
  in the three operations on terminology packages.
\<close>

theorem C6_cap_and_markers:
  "truthy (api_key e) \<and> http_get e = answer (Success data) \<longrightarrow>
   returned (get_adam_product_info e product) =
     (if 130000 < length (json_dumps (remove_all_analysis_variables data))
      then take 130000 (json_dumps (remove_all_analysis_variables data)) @
           ''...The data is too long, please shorten the request.''
      else json_dumps (remove_all_analysis_variables data)) \<and>
   (\<not> rejected (AdamDatastructure product datastructure) \<longrightarrow>
    returned (get_adam_datastructure_info e product datastructure) =
     (if 130000 < length (json_dumps (remove_links_parent_refs data None))
      then take 130000 (json_dumps (remove_links_parent_refs data None)) @
           ''...The data is too long, please shorten the request.''
      else json_dumps (remove_links_parent_refs data None))) \<and>
   (\<not> rejected (Qrs instrument version) \<longrightarrow>
    returned (get_qrs_info e instrument version) =
     (if 130000 < length (json_dumps data)
      then take 130000 (json_dumps data) @
           ''...The data is too long, please shorten the request.''
      else json_dumps data)) \<and>
   (package \<in> set ct_package \<and> minimize_codelists data = Inr final_data \<longrightarrow>
    returned (get_package_ct_info e package) =
     (if 130000 < length (json_dumps_compact final_data)
      then take 130000 (json_dumps_compact final_data) @ [CHR 0x0A] @ ''... [Truncated]''
      else json_dumps_compact final_data)) \<and>
   (package \<in> set ct_package \<longrightarrow>
    returned (get_package_ct_codelist_info e package codelist) =
     (if 130000 < length (json_dumps_compact data)
      then take 130000 (json_dumps_compact data) @ [CHR 0x0A] @ ''... [Truncated]''
      else json_dumps_compact data) \<and>
    returned (get_package_ct_codelist_term_info e package codelist term_id) =
     (if 130000 < length (json_dumps_compact data)
      then take 130000 (json_dumps_compact data) @ [CHR 0x0A] @ ''... [Truncated]''
      else json_dumps_compact data))"
  by (auto simp: operation_defs returned_fetch_success capped_reply_def truncated_reply_def
      nested_outside_def split: option.splits)


theorem C6_cap_and_markers_witness:
  "truthy (api_key (ex_env (Success ex_big_object))) \<and>
   http_get (ex_env (Success ex_big_object)) = answer (Success ex_big_object) \<and>
   130000 < length (json_dumps ex_big_object) \<and>
   returned (get_adam_product_info (ex_env (Success ex_big_object)) ''adamig-1-1'') =
     take 130000 (json_dumps ex_big_object) @
     ''...The data is too long, please shorten the request.'' \<and>
   ''tmfct-2024-09-27'' \<in> set ct_package \<and>
   130000 < length (json_dumps_compact ex_big_object) \<and>
   returned (get_package_ct_codelist_info (ex_env (Success ex_big_object))
       ''tmfct-2024-09-27'' ''C66769'') =
     take 130000 (json_dumps_compact ex_big_object) @ [CHR 0x0A] @ ''... [Truncated]'' \<and>
   \<not> rejected (Qrs ''AIMS01'' ''2-0'') \<and>
   returned (get_qrs_info (ex_env (Success JNull)) ''AIMS01'' ''2-0'') = ''null''"
proof -
  have k: "truthy (api_key (ex_env (Success ex_big_object)))"
    "truthy (api_key (ex_env (Success JNull)))"
    and h: "http_get (ex_env (Success ex_big_object)) = answer (Success ex_big_object)"
    "http_get (ex_env (Success JNull)) = answer (Success JNull)"
    by (simp_all add: ex_env_def truthy_def)
  have u: "remove_all_analysis_variables ex_big_object = ex_big_object"
    by (simp add: ex_big_object_def clear_analysis_variables_def dict_has_def)
  have p: "''tmfct-2024-09-27'' \<in> set ct_package"
    by (simp add: ct_package_def)
  have q: "\<not> rejected (Qrs ''AIMS01'' ''2-0'')"
    by (simp add: nested_outside_def ALLOWED_qrs_combinations_def)
  have l: "130000 < length (json_dumps ex_big_object)"
    "130000 < length (json_dumps_compact ex_big_object)"
    by (simp_all add: length_dumps_ex_big)
  have n: "json_dumps JNull = ''null''"
    by (simp add: json_dumps_def)
  from C6_cap_and_markers [where e = "ex_env (Success ex_big_object)" and data = ex_big_object
      and product = "''adamig-1-1''" and package = "''tmfct-2024-09-27''"
      and codelist = "''C66769''"] k h p l u
  have a: "returned (get_adam_product_info (ex_env (Success ex_big_object)) ''adamig-1-1'') =
     take 130000 (json_dumps ex_big_object) @
     ''...The data is too long, please shorten the request.''"
    and b: "returned (get_package_ct_codelist_info (ex_env (Success ex_big_object))
       ''tmfct-2024-09-27'' ''C66769'') =
     take 130000 (json_dumps_compact ex_big_object) @ [CHR 0x0A] @ ''... [Truncated]''"
    by simp_all
  from C6_cap_and_markers [where e = "ex_env (Success JNull)" and data = JNull
      and instrument = "''AIMS01''" and version = "''2-0''"] k h q n
  have c: "returned (get_qrs_info (ex_env (Success JNull)) ''AIMS01'' ''2-0'') = ''null''"
    by simp
  from k h p q l a b c show ?thesis by blast
qed

text \<open>
  C7. Each of the four failure categories has a prefix of its own, and a timed-out call
  gives a timeout-specific error distinct from other network errors. The code of
  \<^verbatim>\<open>get_sdtmig_class_info\<close>, and of every operation but the first, has no clause for a
  timeout: \<^verbatim>\<open>except httpx.RequestError\<close> catches it, and a timeout and a connection
  failure with the same message return the same string. Only
  \<^verbatim>\<open>get_CDISC_Library_api_product_list\<close> tells the two apart.
\<close>

theorem C7_timeout_as_network_error:
  "returned (get_sdtmig_class_info (ex_env (TimeoutException ''timed out'')) ''3-4'' None) =
     ''Network Error: timed out'' \<and>
   returned (get_sdtmig_class_info (ex_env (RequestError ''timed out'')) ''3-4'' None) =
     ''Network Error: timed out'' \<and>
   returned (get_CDISC_Library_api_product_list (ex_env (TimeoutException ''timed out''))) =
     ''Error: The request to CDISC Library timed out. Please try again later.'' \<and>
   returned (get_CDISC_Library_api_product_list (ex_env (RequestError ''timed out''))) =
     ''Network Error: Unable to connect to CDISC Library. Details: timed out''"
  by (simp add: get_sdtmig_class_info_def get_CDISC_Library_api_product_list_def ex_env_def
      answer_def fetch_def fetch_sliced_def truthy_def)

text \<open>
  C8, as the spec states it: an invalid parent makes the operation return a message that
  enumerates the valid parents. This fails when the API key is not set: the test of the
  key comes first, and its message is returned instead.
\<close>

theorem C8_key_tested_first:
  "map_of ALLOWED_qrs_combinations ''PHQ9'' = None \<and>
   get_qrs_info (ex_env_without_key (Success JNull)) ''PHQ9'' ''1-0'' =
     \<lparr>returned = ''Error: CDISC_API_KEY environment variable not found.'', requests = []\<rparr> \<and>
   returned (get_qrs_info (ex_env_without_key (Success JNull)) ''PHQ9'' ''1-0'') \<noteq>
     ''Error: Invalid instrument '' @ quoted ''PHQ9'' @
     ''. Valid instruments are: AIMS01, APCH1, ATLAS1, CGI02, HAMA1, KFSS1, KPSS1, PGI01, SIXMW1''"
  by (simp add: ALLOWED_qrs_combinations_def get_qrs_info_def ex_env_without_key_def truthy_def
      no_request_def missing_api_key_def)

text \<open>
  C8, amended. When the API key is set: in \<^verbatim>\<open>get_adam_datastructure_info\<close> and
  \<^verbatim>\<open>get_qrs_info\<close>, a parent that is no key of the two-level table makes the operation
  return the message that names the parent and enumerates the valid parents; a valid
  parent with a child outside its list makes it return the message that names both and
  enumerates the valid children of that parent; in both cases no HTTP request is issued.
\<close>

theorem C8_two_level_rejection:
  "truthy (api_key e) \<longrightarrow>
   (map_of ALLOWED_adam_datastructure_combinations product = None \<longrightarrow>
      get_adam_datastructure_info e product datastructure =
        \<lparr>returned = ''Error: Invalid product '' @ quoted product @
           ''. Valid products are: adam-nca-1-0, adamig-1-0, adamig-1-1, adam-occds-1-0, adam-occds-1-1, adam-adae-1-0, adam-poppk-1-0, adam-tte-1-0, adamig-1-2, adam-md-1-0, adamig-1-3'',
         requests = []\<rparr>) \<and>
   (map_of ALLOWED_adam_datastructure_combinations product = Some valid \<and>
    datastructure \<notin> set valid \<longrightarrow>
      get_adam_datastructure_info e product datastructure =
        \<lparr>returned = ''Error: Invalid datastructure '' @ quoted datastructure @
           '' for product '' @ quoted product @ ''. Valid datastructures are: '' @
           join '', '' valid,
         requests = []\<rparr> \<and>
      (\<forall>child \<in> set valid.
         sublist child (returned (get_adam_datastructure_info e product datastructure)))) \<and>
   (map_of ALLOWED_qrs_combinations instrument = None \<longrightarrow>
      get_qrs_info e instrument version =
        \<lparr>returned = ''Error: Invalid instrument '' @ quoted instrument @
           ''. Valid instruments are: AIMS01, APCH1, ATLAS1, CGI02, HAMA1, KFSS1, KPSS1, PGI01, SIXMW1'',
         requests = []\<rparr>) \<and>
   (map_of ALLOWED_qrs_combinations instrument = Some versions \<and> version \<notin> set versions \<longrightarrow>
      get_qrs_info e instrument version =
        \<lparr>returned = ''Error: Invalid version '' @ quoted version @
           '' for instrument '' @ quoted instrument @ ''. Valid versions are: '' @
           join '', '' versions,
         requests = []\<rparr> \<and>
      (\<forall>child \<in> set versions.
         sublist child (returned (get_qrs_info e instrument version))))"
proof (intro impI conjI ballI)
  assume k: "truthy (api_key e)"
  have adam_keys: "join '', '' (map fst ALLOWED_adam_datastructure_combinations) =
    ''adam-nca-1-0, adamig-1-0, adamig-1-1, adam-occds-1-0, adam-occds-1-1, adam-adae-1-0, adam-poppk-1-0, adam-tte-1-0, adamig-1-2, adam-md-1-0, adamig-1-3''"
    by (simp add: ALLOWED_adam_datastructure_combinations_def)
  have qrs_keys: "join '', '' (map fst ALLOWED_qrs_combinations) =
    ''AIMS01, APCH1, ATLAS1, CGI02, HAMA1, KFSS1, KPSS1, PGI01, SIXMW1''"
    by (simp add: ALLOWED_qrs_combinations_def)
  {
    assume "map_of ALLOWED_adam_datastructure_combinations product = None"
    with k show "get_adam_datastructure_info e product datastructure =
        \<lparr>returned = ''Error: Invalid product '' @ quoted product @
           ''. Valid products are: adam-nca-1-0, adamig-1-0, adamig-1-1, adam-occds-1-0, adam-occds-1-1, adam-adae-1-0, adam-poppk-1-0, adam-tte-1-0, adamig-1-2, adam-md-1-0, adamig-1-3'',
         requests = []\<rparr>"
      by (simp add: get_adam_datastructure_info_def no_request_def adam_keys)
  }
  {
    assume "map_of ALLOWED_qrs_combinations instrument = None"
    with k show "get_qrs_info e instrument version =
        \<lparr>returned = ''Error: Invalid instrument '' @ quoted instrument @
           ''. Valid instruments are: AIMS01, APCH1, ATLAS1, CGI02, HAMA1, KFSS1, KPSS1, PGI01, SIXMW1'',
         requests = []\<rparr>"
      by (simp add: get_qrs_info_def no_request_def qrs_keys)
  }
  {
    assume a: "map_of ALLOWED_adam_datastructure_combinations product = Some valid \<and>
      datastructure \<notin> set valid"
    with k show r: "get_adam_datastructure_info e product datastructure =
        \<lparr>returned = ''Error: Invalid datastructure '' @ quoted datastructure @
           '' for product '' @ quoted product @ ''. Valid datastructures are: '' @
           join '', '' valid,
         requests = []\<rparr>"
      by (simp add: get_adam_datastructure_info_def no_request_def)
    fix child assume "child \<in> set valid"
    then have "sublist child (join '', '' valid)" by (rule sublist_join)
    then have "sublist child ((''Error: Invalid datastructure '' @ quoted datastructure @
           '' for product '' @ quoted product @ ''. Valid datastructures are: '') @
           join '', '' valid)"
      by (rule sublist_suffix)
    then show "sublist child (returned (get_adam_datastructure_info e product datastructure))"
      unfolding r by simp
  }
  {
    assume a: "map_of ALLOWED_qrs_combinations instrument = Some versions \<and>
      version \<notin> set versions"
    with k show r: "get_qrs_info e instrument version =
        \<lparr>returned = ''Error: Invalid version '' @ quoted version @
           '' for instrument '' @ quoted instrument @ ''. Valid versions are: '' @
           join '', '' versions,
         requests = []\<rparr>"
      by (simp add: get_qrs_info_def no_request_def)
    fix child assume "child \<in> set versions"
    then have "sublist child (join '', '' versions)" by (rule sublist_join)
    then have "sublist child ((''Error: Invalid version '' @ quoted version @
           '' for instrument '' @ quoted instrument @ ''. Valid versions are: '') @
           join '', '' versions)"
      by (rule sublist_suffix)
    then show "sublist child (returned (get_qrs_info e instrument version))"
      unfolding r by simp
  }
qed


theorem C8_two_level_rejection_witness:
  "truthy (api_key (ex_env (Success JNull))) \<and>
   map_of ALLOWED_adam_datastructure_combinations ''adamig-9-9'' = None \<and>
   get_adam_datastructure_info (ex_env (Success JNull)) ''adamig-9-9'' ''ADSL'' =
     \<lparr>returned = ''Error: Invalid product '' @ quoted ''adamig-9-9'' @
        ''. Valid products are: adam-nca-1-0, adamig-1-0, adamig-1-1, adam-occds-1-0, adam-occds-1-1, adam-adae-1-0, adam-poppk-1-0, adam-tte-1-0, adamig-1-2, adam-md-1-0, adamig-1-3'',
      requests = []\<rparr> \<and>
   map_of ALLOWED_adam_datastructure_combinations ''adamig-1-0'' = Some [''ADSL'', ''BDS''] \<and>
   ''ADAE'' \<notin> set [''ADSL'', ''BDS''] \<and>
   get_adam_datastructure_info (ex_env (Success JNull)) ''adamig-1-0'' ''ADAE'' =
     \<lparr>returned = ''Error: Invalid datastructure '' @ quoted ''ADAE'' @ '' for product '' @
        quoted ''adamig-1-0'' @ ''. Valid datastructures are: ADSL, BDS'',
      requests = []\<rparr> \<and>
   sublist ''BDS'' (returned (get_adam_datastructure_info (ex_env (Success JNull)) ''adamig-1-0'' ''ADAE'')) \<and>
   map_of ALLOWED_qrs_combinations ''PHQ9'' = None \<and>
   get_qrs_info (ex_env (Success JNull)) ''PHQ9'' ''1-0'' =
     \<lparr>returned = ''Error: Invalid instrument '' @ quoted ''PHQ9'' @
        ''. Valid instruments are: AIMS01, APCH1, ATLAS1, CGI02, HAMA1, KFSS1, KPSS1, PGI01, SIXMW1'',
      requests = []\<rparr> \<and>
   map_of ALLOWED_qrs_combinations ''AIMS01'' = Some [''2-0''] \<and> ''1-0'' \<notin> set [''2-0''] \<and>
   get_qrs_info (ex_env (Success JNull)) ''AIMS01'' ''1-0'' =
     \<lparr>returned = ''Error: Invalid version '' @ quoted ''1-0'' @ '' for instrument '' @
        quoted ''AIMS01'' @ ''. Valid versions are: 2-0'',
      requests = []\<rparr>"
proof -
  have k: "truthy (api_key (ex_env (Success JNull)))"
    by (simp add: ex_env_def truthy_def)
  have p1: "map_of ALLOWED_adam_datastructure_combinations ''adamig-9-9'' = None"
    and p2: "map_of ALLOWED_adam_datastructure_combinations ''adamig-1-0'' = Some [''ADSL'', ''BDS'']"
    by (simp_all add: ALLOWED_adam_datastructure_combinations_def)
  have q1: "map_of ALLOWED_qrs_combinations ''PHQ9'' = None"
    and q2: "map_of ALLOWED_qrs_combinations ''AIMS01'' = Some [''2-0'']"
    by (simp_all add: ALLOWED_qrs_combinations_def)
  have m: "''ADAE'' \<notin> set [''ADSL'', ''BDS'']" "''1-0'' \<notin> set [''2-0'']" "''BDS'' \<in> set [''ADSL'', ''BDS'']"
    by simp_all
  note a = C8_two_level_rejection [where e = "ex_env (Success JNull)" and product = "''adamig-9-9''"
      and datastructure = "''ADSL''" and instrument = "''PHQ9''" and version = "''1-0''"]
  note b = C8_two_level_rejection [where e = "ex_env (Success JNull)" and product = "''adamig-1-0''"
      and datastructure = "''ADAE''" and valid = "[''ADSL'', ''BDS'']"
      and instrument = "''AIMS01''" and version = "''1-0''" and versions = "[''2-0'']"]
  from a k p1 q1 have r1:
    "get_adam_datastructure_info (ex_env (Success JNull)) ''adamig-9-9'' ''ADSL'' =
     \<lparr>returned = ''Error: Invalid product '' @ quoted ''adamig-9-9'' @
        ''. Valid products are: adam-nca-1-0, adamig-1-0, adamig-1-1, adam-occds-1-0, adam-occds-1-1, adam-adae-1-0, adam-poppk-1-0, adam-tte-1-0, adamig-1-2, adam-md-1-0, adamig-1-3'',
      requests = []\<rparr>"
    and r3: "get_qrs_info (ex_env (Success JNull)) ''PHQ9'' ''1-0'' =
     \<lparr>returned = ''Error: Invalid instrument '' @ quoted ''PHQ9'' @
        ''. Valid instruments are: AIMS01, APCH1, ATLAS1, CGI02, HAMA1, KFSS1, KPSS1, PGI01, SIXMW1'',
      requests = []\<rparr>"
    by blast+
  from b k p2 q2 m have r2:
    "get_adam_datastructure_info (ex_env (Success JNull)) ''adamig-1-0'' ''ADAE'' =
     \<lparr>returned = ''Error: Invalid datastructure '' @ quoted ''ADAE'' @ '' for product '' @
        quoted ''adamig-1-0'' @ ''. Valid datastructures are: '' @ join '', '' [''ADSL'', ''BDS''],
      requests = []\<rparr>"
    and r4: "get_qrs_info (ex_env (Success JNull)) ''AIMS01'' ''1-0'' =
     \<lparr>returned = ''Error: Invalid version '' @ quoted ''1-0'' @ '' for instrument '' @
        quoted ''AIMS01'' @ ''. Valid versions are: '' @ join '', '' [''2-0''],
      requests = []\<rparr>"
    and s: "sublist ''BDS'' (returned (get_adam_datastructure_info (ex_env (Success JNull)) ''adamig-1-0'' ''ADAE''))"
    by blast+
  from r2 have r2': "get_adam_datastructure_info (ex_env (Success JNull)) ''adamig-1-0'' ''ADAE'' =
     \<lparr>returned = ''Error: Invalid datastructure '' @ quoted ''ADAE'' @ '' for product '' @
        quoted ''adamig-1-0'' @ ''. Valid datastructures are: ADSL, BDS'',
      requests = []\<rparr>"
    by simp
  from r4 have r4': "get_qrs_info (ex_env (Success JNull)) ''AIMS01'' ''1-0'' =
     \<lparr>returned = ''Error: Invalid version '' @ quoted ''1-0'' @ '' for instrument '' @
        quoted ''AIMS01'' @ ''. Valid versions are: 2-0'',
      requests = []\<rparr>"
    by simp
  from k p1 p2 q1 q2 m r1 r2' r3 r4' s show ?thesis by blast
qed

text \<open>
  C9, as the spec states it: an object reached under \<^verbatim>\<open>analysisVariables\<close> with the
  links \<^verbatim>\<open>{"self": A, "other": B}\<close> ends with the links \<^verbatim>\<open>{"self": A}\<close>, and under any
  other parent key its links are left untouched. This fails where \<open>A\<close> holds analysis
  variables of its own: the walk goes on into the links it has kept, so \<open>A\<close> comes out
  pruned inside, under either parent key.
\<close>

theorem C9_walk_continues_into_links:
  "node_at ex_nested_variable [Key ''_links''] =
     Some (JDict [(''self'', ex_nested_self), (''other'', JStr ''/o'')]) \<and>
   node_at (remove_links_parent_refs ex_nested_variable (Some ''analysisVariables'')) [Key ''_links''] =
     Some (JDict [(''self'',
        JDict [(''href'', JStr ''/x''),
               (''analysisVariables'', JList [JDict [(''_links'', JDict [])]])])]) \<and>
   node_at (remove_links_parent_refs ex_nested_variable (Some ''analysisVariables'')) [Key ''_links''] \<noteq>
     Some (JDict [(''self'', ex_nested_self)]) \<and>
   node_at (remove_links_parent_refs ex_nested_variable (Some ''items'')) [Key ''_links''] =
     Some (JDict [(''self'',
        JDict [(''href'', JStr ''/x''),
               (''analysisVariables'', JList [JDict [(''_links'', JDict [])]])]),
        (''other'', JStr ''/o'')]) \<and>
   node_at (remove_links_parent_refs ex_nested_variable (Some ''items'')) [Key ''_links''] \<noteq>
     node_at ex_nested_variable [Key ''_links'']"
  by (simp add: ex_nested_variable_def ex_nested_self_def prune_links_def)


text \<open>
  C9, amended. For an object reached under the parent key \<^verbatim>\<open>analysisVariables\<close> whose
  \<^verbatim>\<open>_links\<close> field is an object, the transformed \<^verbatim>\<open>_links\<close> has the single entry
  \<^verbatim>\<open>self\<close>, holding the value of the old \<^verbatim>\<open>self\<close> entry as the walk leaves it (and is
  the empty object when there was no \<^verbatim>\<open>self\<close> entry); reached under any other parent
  key, the \<^verbatim>\<open>_links\<close> field is not pruned and is walked like any other value. A value in
  which the key \<^verbatim>\<open>analysisVariables\<close> does not occur is left by the walk as it is, so
  in that case the results are \<^verbatim>\<open>{"self": A}\<close> and the untouched field. The items of a
  list are walked with the parent key of the list.
\<close>

theorem C9_link_prune:
  "(parent_key = Some ''analysisVariables'' \<and> map_of kvs ''_links'' = Some (JDict links) \<longrightarrow>
      node_at (remove_links_parent_refs (JDict kvs) parent_key) [Key ''_links''] =
        Some (JDict (case map_of links ''self'' of
                       Some a \<Rightarrow> [(''self'', remove_links_parent_refs a (Some ''self''))]
                     | None \<Rightarrow> []))) \<and>
   (parent_key \<noteq> Some ''analysisVariables'' \<and> map_of kvs ''_links'' = Some l \<longrightarrow>
      node_at (remove_links_parent_refs (JDict kvs) parent_key) [Key ''_links''] =
        Some (remove_links_parent_refs l (Some ''_links''))) \<and>
   (\<not> occurs ''analysisVariables'' v \<longrightarrow>
      remove_links_parent_refs v (Some ''self'') = v \<and>
      remove_links_parent_refs v (Some ''_links'') = v) \<and>
   remove_links_parent_refs (JList xs) parent_key =
     JList (map (\<lambda>item. remove_links_parent_refs item parent_key) xs)"
proof (intro conjI impI)
  assume "parent_key = Some ''analysisVariables'' \<and> map_of kvs ''_links'' = Some (JDict links)"
  then show "node_at (remove_links_parent_refs (JDict kvs) parent_key) [Key ''_links''] =
        Some (JDict (case map_of links ''self'' of
                       Some a \<Rightarrow> [(''self'', remove_links_parent_refs a (Some ''self''))]
                     | None \<Rightarrow> []))"
    unfolding node_at_links
    by (cases "map_of links ''self''") (simp_all add: map_of_prune_links prune_links_other_parent)
next
  assume "parent_key \<noteq> Some ''analysisVariables'' \<and> map_of kvs ''_links'' = Some l"
  then show "node_at (remove_links_parent_refs (JDict kvs) parent_key) [Key ''_links''] =
        Some (remove_links_parent_refs l (Some ''_links''))"
    unfolding node_at_links by (simp add: map_of_prune_links)
next
  assume "\<not> occurs ''analysisVariables'' v"
  then show "remove_links_parent_refs v (Some ''self'') = v"
    by (simp add: remove_links_parent_refs_no_parent)
next
  assume "\<not> occurs ''analysisVariables'' v"
  then show "remove_links_parent_refs v (Some ''_links'') = v"
    by (simp add: remove_links_parent_refs_no_parent)
next
  show "remove_links_parent_refs (JList xs) parent_key =
     JList (map (\<lambda>item. remove_links_parent_refs item parent_key) xs)"
    by simp
qed

theorem C9_link_prune_witness:
  "map_of [(''name'', JStr ''STUDYID''),
            (''_links'', JDict [(''self'', ex_self), (''parentDatastructure'', JStr ''/d'')])] ''_links'' =
     Some (JDict [(''self'', ex_self), (''parentDatastructure'', JStr ''/d'')]) \<and>
   \<not> occurs ''analysisVariables'' ex_self \<and>
   node_at (remove_links_parent_refs
       (JDict [(''name'', JStr ''STUDYID''),
            (''_links'', JDict [(''self'', ex_self), (''parentDatastructure'', JStr ''/d'')])])
       (Some ''analysisVariables'')) [Key ''_links''] = Some (JDict [(''self'', ex_self)]) \<and>
   node_at (remove_links_parent_refs
       (JDict [(''name'', JStr ''STUDYID''),
            (''_links'', JDict [(''self'', ex_self), (''parentDatastructure'', JStr ''/d'')])])
       (Some ''items'')) [Key ''_links''] =
     Some (JDict [(''self'', ex_self), (''parentDatastructure'', JStr ''/d'')])"
proof -
  let ?kvs = "[(''name'', JStr ''STUDYID''),
            (''_links'', JDict [(''self'', ex_self), (''parentDatastructure'', JStr ''/d'')])]"
  let ?links = "[(''self'', ex_self), (''parentDatastructure'', JStr ''/d'')]"
  have m: "map_of ?kvs ''_links'' = Some (JDict ?links)" by simp
  have n: "\<not> occurs ''analysisVariables'' ex_self"
    by (simp add: ex_self_def dict_has_def)
  have n2: "\<not> occurs ''analysisVariables'' (JDict ?links)"
    by (simp add: ex_self_def dict_has_def)
  from C9_link_prune [of "Some ''analysisVariables''" ?kvs ?links "JDict ?links" ex_self "[]"] m n
  have a: "node_at (remove_links_parent_refs (JDict ?kvs) (Some ''analysisVariables'')) [Key ''_links''] =
     Some (JDict [(''self'', ex_self)])"
    by simp
  from C9_link_prune [of "Some ''items''" ?kvs ?links "JDict ?links" "JDict ?links" "[]"] m n2
  have b: "node_at (remove_links_parent_refs (JDict ?kvs) (Some ''items'')) [Key ''_links''] =
     Some (JDict ?links)"
    by simp
  from m n a b show ?thesis by blast
qed

text \<open>
  C10. Subtree-clear is idempotent: for every JSON tree, applying
  \<^verbatim>\<open>remove_all_analysis_variables\<close> twice gives the same tree as applying it once, and
  after one application every \<^verbatim>\<open>'analysisVariables'\<close> field is already the empty list.
\<close>

theorem C10_subtree_clear_idempotent:
  "remove_all_analysis_variables (remove_all_analysis_variables obj) =
     remove_all_analysis_variables obj \<and>
   cleared (remove_all_analysis_variables obj)"
  by (simp add: remove_all_analysis_variables_idem cleared_remove_all_analysis_variables)

theorem C10_subtree_clear_idempotent_witness:
  "remove_all_analysis_variables ex_adam_product =
     JDict [(''name'', JStr ''ADSL''),
            (''analysisVariables'', JList []),
            (''analysisVariableSets'',
               JList [JDict [(''ordinal'', JInt 1), (''analysisVariables'', JList [])]])] \<and>
   remove_all_analysis_variables (remove_all_analysis_variables ex_adam_product) =
     remove_all_analysis_variables ex_adam_product \<and>
   cleared (remove_all_analysis_variables ex_adam_product)"
  using C10_subtree_clear_idempotent [of ex_adam_product]
  by (simp add: ex_adam_product_def clear_analysis_variables_def dict_has_def)

end
